theory Spec2Isabelle
  imports Complex_Main
begin

section \<open>Values, exceptions and Python primitives\<close>

text \<open>
  The handlers of \<^verbatim>\<open>app.py\<close> work on dynamically typed values: parsed JSON request
  bodies, MongoDB documents and JSON responses. One datatype covers them all. Objects
  (Python dicts) are association lists with distinct keys, looked up with \<open>map_of\<close>.
  A \<open>string\<close> is a Python \<^verbatim>\<open>str\<close> whose characters are the code points 0..255.
  \<open>VOid\<close> is a BSON ObjectId, written as its 24 lower-case hexadecimal digits,
  \<open>VTime\<close> a \<^verbatim>\<open>datetime\<close>, \<open>VBytes\<close> a \<^verbatim>\<open>bytes\<close> object (a bcrypt hash).
  \<open>VFloat\<close> stands for a Python \<^verbatim>\<open>float\<close> and carries the exact quotient; the
  rounding of binary floating point is not represented.
\<close>

datatype val =
    VNull
  | VBool bool
  | VNum int
  | VStr string
  | VArr "val list"
  | VObj "(string \<times> val) list"
  | VOid string
  | VTime nat
  | VBytes string
  | VFloat rat

text \<open>
  The exceptions that the modelled code can raise. Every handler body of the source sits in
  \<^verbatim>\<open>try: ... except Exception as e\<close>, so an exception raised inside a body becomes a 500
  response there; an exception raised outside a body reaches the framework.
\<close>

datatype pyexn =
    TypeError | KeyError | AttributeError | ValueError | OverflowError | RuntimeError
  | NotImplementedError | InvalidId | InvalidDocument | DuplicateKeyError | WriteError

text \<open>
  \<^verbatim>\<open>str(e)\<close> in the 500 messages of the handlers: the message text of an exception is
  represented by the name of its class.
\<close>

fun exn_text :: "pyexn \<Rightarrow> string" where
  "exn_text TypeError = ''TypeError''"
| "exn_text KeyError = ''KeyError''"
| "exn_text AttributeError = ''AttributeError''"
| "exn_text InvalidId = ''InvalidId''"
| "exn_text DuplicateKeyError = ''DuplicateKeyError''"
| "exn_text WriteError = ''WriteError''"
| "exn_text RuntimeError = ''RuntimeError''"
| "exn_text ValueError = ''ValueError''"
| "exn_text OverflowError = ''OverflowError''"
| "exn_text NotImplementedError = ''NotImplementedError''"
| "exn_text InvalidDocument = ''InvalidDocument''"

text \<open>Python truthiness, as used by \<^verbatim>\<open>if not data\<close> and \<^verbatim>\<open>if not roadmap\<close>.\<close>

fun truthy :: "val \<Rightarrow> bool" where
  "truthy VNull = False"
| "truthy (VBool b) = b"
| "truthy (VNum n) = (n \<noteq> 0)"
| "truthy (VStr s) = (s \<noteq> [])"
| "truthy (VArr xs) = (xs \<noteq> [])"
| "truthy (VObj kvs) = (kvs \<noteq> [])"
| "truthy (VOid x) = True"
| "truthy (VTime t) = True"
| "truthy (VBytes b) = (b \<noteq> [])"
| "truthy (VFloat q) = (q \<noteq> 0)"

text \<open>\<^verbatim>\<open>len(x)\<close>: defined on strings, lists, dicts and bytes; a TypeError otherwise.\<close>

fun py_len :: "val \<Rightarrow> pyexn + nat" where
  "py_len (VStr s) = Inr (length s)"
| "py_len (VArr xs) = Inr (length xs)"
| "py_len (VObj kvs) = Inr (length kvs)"
| "py_len (VBytes b) = Inr (length b)"
| "py_len VNull = Inl TypeError"
| "py_len (VBool b) = Inl TypeError"
| "py_len (VNum n) = Inl TypeError"
| "py_len (VOid x) = Inl TypeError"
| "py_len (VTime t) = Inl TypeError"
| "py_len (VFloat q) = Inl TypeError"

subsection \<open>Regular expressions of one character class\<close>

text \<open>
  Every pattern of \<^verbatim>\<open>validate_password\<close> is a single character class, so
  \<^verbatim>\<open>re.search\<close> scans the string from the left for a character of the class.
  On anything but a \<^verbatim>\<open>str\<close> a string pattern raises a TypeError.
\<close>

fun scan_class :: "(char \<Rightarrow> bool) \<Rightarrow> string \<Rightarrow> bool" where
  "scan_class cls [] = False"
| "scan_class cls (c # cs) = (if cls c then True else scan_class cls cs)"

fun re_search :: "(char \<Rightarrow> bool) \<Rightarrow> val \<Rightarrow> pyexn + bool" where
  "re_search cls (VStr s) = Inr (scan_class cls s)"
| "re_search cls VNull = Inl TypeError"
| "re_search cls (VBool b) = Inl TypeError"
| "re_search cls (VNum n) = Inl TypeError"
| "re_search cls (VArr xs) = Inl TypeError"
| "re_search cls (VObj kvs) = Inl TypeError"
| "re_search cls (VOid x) = Inl TypeError"
| "re_search cls (VTime t) = Inl TypeError"
| "re_search cls (VBytes b) = Inl TypeError"
| "re_search cls (VFloat q) = Inl TypeError"

text \<open>The classes \<^verbatim>\<open>[A-Z]\<close>, \<^verbatim>\<open>[a-z]\<close>, \<^verbatim>\<open>\d\<close> and \<^verbatim>\<open>[!@#$%^&*(),.?":{}|<>]\<close>.\<close>

definition cls_upper :: "char \<Rightarrow> bool" where
  "cls_upper c = (65 \<le> (of_char c :: nat) \<and> (of_char c :: nat) \<le> 90)"

definition cls_lower :: "char \<Rightarrow> bool" where
  "cls_lower c = (97 \<le> (of_char c :: nat) \<and> (of_char c :: nat) \<le> 122)"

definition cls_digit :: "char \<Rightarrow> bool" where
  "cls_digit c = (48 \<le> (of_char c :: nat) \<and> (of_char c :: nat) \<le> 57)"

definition special_chars :: "string" where
  "special_chars = ''!@#$%^&*(),.?'' @ [CHR 0x22] @ '':{}|<>''"

definition cls_special :: "char \<Rightarrow> bool" where
  "cls_special c = (c \<in> set special_chars)"

subsection \<open>Password strength\<close>

text \<open>
  \<^verbatim>\<open>validate_password(password)\<close>: five checks in a fixed order, each returning
  \<^verbatim>\<open>(False, reason)\<close> when it fails; \<^verbatim>\<open>(True, "Password is valid")\<close> at the end.
\<close>

definition validate_password :: "val \<Rightarrow> pyexn + (bool \<times> string)" where
  "validate_password password =
     (case py_len password of
        Inl e \<Rightarrow> Inl e
      | Inr n \<Rightarrow>
          if n < 8 then Inr (False, ''Password must be at least 8 characters long'')
          else (case re_search cls_upper password of
            Inl e \<Rightarrow> Inl e
          | Inr up \<Rightarrow>
              if \<not> up then Inr (False, ''Password must contain at least one uppercase letter'')
              else (case re_search cls_lower password of
                Inl e \<Rightarrow> Inl e
              | Inr lo \<Rightarrow>
                  if \<not> lo then Inr (False, ''Password must contain at least one lowercase letter'')
                  else (case re_search cls_digit password of
                    Inl e \<Rightarrow> Inl e
                  | Inr dg \<Rightarrow>
                      if \<not> dg then Inr (False, ''Password must contain at least one digit'')
                      else (case re_search cls_special password of
                        Inl e \<Rightarrow> Inl e
                      | Inr sp \<Rightarrow>
                          if \<not> sp
                          then Inr (False, ''Password must contain at least one special character'')
                          else Inr (True, ''Password is valid''))))))"

subsection \<open>Sequencing computations that may raise\<close>

definition then_do :: "pyexn + 'a \<Rightarrow> ('a \<Rightarrow> pyexn + 'b) \<Rightarrow> pyexn + 'b" where
  "then_do m f = (case m of Inl e \<Rightarrow> Inl e | Inr x \<Rightarrow> f x)"

subsection \<open>Strings\<close>

text \<open>
  \<^verbatim>\<open>str.strip()\<close> removes leading and trailing white space, \<^verbatim>\<open>str.lower()\<close> maps
  upper-case letters to lower case; both are given here for the code points 0..255.
\<close>

definition py_isspace :: "char \<Rightarrow> bool" where
  "py_isspace c = ((of_char c :: nat) \<in> set [9, 10, 11, 12, 13, 28, 29, 30, 31, 32, 133, 160])"

definition strip :: "string \<Rightarrow> string" where
  "strip s = rev (dropWhile py_isspace (rev (dropWhile py_isspace s)))"

definition lower_char :: "char \<Rightarrow> char" where
  "lower_char c =
     (let n = (of_char c :: nat)
      in if (65 \<le> n \<and> n \<le> 90) \<or> (192 \<le> n \<and> n \<le> 222 \<and> n \<noteq> 215)
         then char_of (n + 32) else c)"

definition lower :: "string \<Rightarrow> string" where
  "lower s = map lower_char s"

fun py_strip :: "val \<Rightarrow> pyexn + string" where
  "py_strip (VStr s) = Inr (strip s)"
| "py_strip VNull = Inl AttributeError"
| "py_strip (VBool b) = Inl AttributeError"
| "py_strip (VNum n) = Inl AttributeError"
| "py_strip (VArr xs) = Inl AttributeError"
| "py_strip (VObj kvs) = Inl AttributeError"
| "py_strip (VOid x) = Inl AttributeError"
| "py_strip (VTime t) = Inl AttributeError"
| "py_strip (VBytes b) = Inl AttributeError"
| "py_strip (VFloat q) = Inl AttributeError"

fun starts_with :: "string \<Rightarrow> string \<Rightarrow> bool" where
  "starts_with [] s = True"
| "starts_with (a # as) [] = False"
| "starts_with (a # as) (b # bs) = (a = b \<and> starts_with as bs)"

fun substr_in :: "string \<Rightarrow> string \<Rightarrow> bool" where
  "substr_in k [] = (k = [])"
| "substr_in k (c # cs) = (starts_with k (c # cs) \<or> substr_in k cs)"

text \<open>Decimal digits of a natural number, for \<^verbatim>\<open>str(n)\<close> and f-strings.\<close>

function show_nat :: "nat \<Rightarrow> string" where
  "show_nat n =
     (if n < 10 then [char_of (48 + n)]
      else show_nat (n div 10) @ [char_of (48 + n mod 10)])"
  by pat_completeness auto
termination
  by (relation "measure (\<lambda>n. n)") auto

text \<open>
  \<^verbatim>\<open>str(x)\<close>. The text is exact for strings, ObjectIds, integers, booleans and
  \<^verbatim>\<open>None\<close>. For lists, dicts, datetimes, bytes and floats only the kind of the value is
  rendered: the handlers use \<^verbatim>\<open>str\<close> on identifiers, which are ObjectIds or strings.
\<close>

fun py_str :: "val \<Rightarrow> string" where
  "py_str (VStr s) = s"
| "py_str (VOid x) = x"
| "py_str (VNum n) = (if n < 0 then CHR ''-'' # show_nat (nat (- n)) else show_nat (nat n))"
| "py_str (VBool b) = (if b then ''True'' else ''False'')"
| "py_str VNull = ''None''"
| "py_str (VArr xs) = ''[..]''"
| "py_str (VObj kvs) = ''{..}''"
| "py_str (VTime t) = ''<datetime>''"
| "py_str (VBytes b) = ''<bytes>''"
| "py_str (VFloat q) = ''<float>''"

subsection \<open>Membership, subscription and \<^verbatim>\<open>dict.get\<close> with a string key\<close>

text \<open>
  \<^verbatim>\<open>k in x\<close>: key membership on a dict, element membership on a list, substring test
  on a string, a TypeError on everything else.
\<close>

fun py_in :: "string \<Rightarrow> val \<Rightarrow> pyexn + bool" where
  "py_in k (VObj kvs) = Inr (k \<in> set (map fst kvs))"
| "py_in k (VArr xs) = Inr (VStr k \<in> set xs)"
| "py_in k (VStr s) = Inr (substr_in k s)"
| "py_in k VNull = Inl TypeError"
| "py_in k (VBool b) = Inl TypeError"
| "py_in k (VNum n) = Inl TypeError"
| "py_in k (VOid x) = Inl TypeError"
| "py_in k (VTime t) = Inl TypeError"
| "py_in k (VBytes b) = Inl TypeError"
| "py_in k (VFloat q) = Inl TypeError"

text \<open>\<^verbatim>\<open>x[k]\<close>: a KeyError on a dict without the key, a TypeError on a non-dict.\<close>

fun py_getitem :: "val \<Rightarrow> string \<Rightarrow> pyexn + val" where
  "py_getitem (VObj kvs) k = (case map_of kvs k of None \<Rightarrow> Inl KeyError | Some v \<Rightarrow> Inr v)"
| "py_getitem VNull k = Inl TypeError"
| "py_getitem (VBool b) k = Inl TypeError"
| "py_getitem (VNum n) k = Inl TypeError"
| "py_getitem (VStr s) k = Inl TypeError"
| "py_getitem (VArr xs) k = Inl TypeError"
| "py_getitem (VOid x) k = Inl TypeError"
| "py_getitem (VTime t) k = Inl TypeError"
| "py_getitem (VBytes b) k = Inl TypeError"
| "py_getitem (VFloat q) k = Inl TypeError"

text \<open>\<^verbatim>\<open>x.get(k, default)\<close>: only dicts have the method.\<close>

fun py_get :: "val \<Rightarrow> string \<Rightarrow> val \<Rightarrow> pyexn + val" where
  "py_get (VObj kvs) k d = (case map_of kvs k of None \<Rightarrow> Inr d | Some v \<Rightarrow> Inr v)"
| "py_get VNull k d = Inl AttributeError"
| "py_get (VBool b) k d = Inl AttributeError"
| "py_get (VNum n) k d = Inl AttributeError"
| "py_get (VStr s) k d = Inl AttributeError"
| "py_get (VArr xs) k d = Inl AttributeError"
| "py_get (VOid x) k d = Inl AttributeError"
| "py_get (VTime t) k d = Inl AttributeError"
| "py_get (VBytes b) k d = Inl AttributeError"
| "py_get (VFloat q) k d = Inl AttributeError"

text \<open>\<^verbatim>\<open>x[k] = v\<close> on a dict: replaces the value of an existing key or appends the key.\<close>

fun dict_set :: "(string \<times> val) list \<Rightarrow> string \<Rightarrow> val \<Rightarrow> (string \<times> val) list" where
  "dict_set [] k v = [(k, v)]"
| "dict_set ((k', v') # kvs) k v = (if k' = k then (k, v) # kvs else (k', v') # dict_set kvs k v)"

fun py_setitem :: "val \<Rightarrow> string \<Rightarrow> val \<Rightarrow> pyexn + val" where
  "py_setitem (VObj kvs) k v = Inr (VObj (dict_set kvs k v))"
| "py_setitem VNull k v = Inl TypeError"
| "py_setitem (VBool b) k v = Inl TypeError"
| "py_setitem (VNum n) k v = Inl TypeError"
| "py_setitem (VStr s) k v = Inl TypeError"
| "py_setitem (VArr xs) k v = Inl TypeError"
| "py_setitem (VOid x) k v = Inl TypeError"
| "py_setitem (VTime t) k v = Inl TypeError"
| "py_setitem (VBytes b) k v = Inl TypeError"
| "py_setitem (VFloat q) k v = Inl TypeError"

subsection \<open>ObjectIds\<close>

text \<open>
  \<^verbatim>\<open>ObjectId(s)\<close> on a string: the string must have 24 characters and
  \<^verbatim>\<open>bytes.fromhex\<close> must read it, or InvalidId is raised. \<^verbatim>\<open>bytes.fromhex\<close> reads
  pairs of hexadecimal digits and skips ASCII white space between the pairs. An ObjectId is
  represented by the lower-case digits of its bytes, which is what \<^verbatim>\<open>str\<close> of it prints:
  24 digits for 24 digits given, fewer when the string had white space (no stored
  document has such an id). \<open>new_oid n\<close> is the id that the driver generates for the
  \<open>n\<close>-th inserted document.
\<close>

definition is_hex :: "char \<Rightarrow> bool" where
  "is_hex c = (c \<in> set ''0123456789abcdefABCDEF'')"

definition ascii_space :: "char \<Rightarrow> bool" where
  "ascii_space c = ((of_char c :: nat) \<in> set [9, 10, 11, 12, 13, 32])"

fun fromhex :: "string \<Rightarrow> string option" where
  "fromhex [] = Some []"
| "fromhex [c] = (if ascii_space c then Some [] else None)"
| "fromhex (c # d # cs) =
     (if ascii_space c then fromhex (d # cs)
      else if is_hex c \<and> is_hex d
      then (case fromhex cs of
              None \<Rightarrow> None
            | Some digits \<Rightarrow> Some (lower_char c # lower_char d # digits))
      else None)"

definition ObjectId :: "string \<Rightarrow> pyexn + string" where
  "ObjectId s =
     (if length s = 24
      then (case fromhex s of None \<Rightarrow> Inl InvalidId | Some digits \<Rightarrow> Inr digits)
      else Inl InvalidId)"

subsection \<open>What BSON can encode\<close>

text \<open>
  The encoder of the driver refuses an integer that does not fit 8 bytes (OverflowError)
  and a key with a NUL character (InvalidDocument). \<open>bson_check\<close> gives the first
  refusal met in a value, or \<open>None\<close>.
\<close>

fun bson_check :: "val \<Rightarrow> pyexn option"
  and bson_check_list :: "val list \<Rightarrow> pyexn option"
  and bson_check_fields :: "(string \<times> val) list \<Rightarrow> pyexn option" where
  "bson_check (VNum n) =
     (if - (2 ^ 63) \<le> n \<and> n < 2 ^ 63 then None else Some OverflowError)"
| "bson_check (VArr xs) = bson_check_list xs"
| "bson_check (VObj kvs) = bson_check_fields kvs"
| "bson_check VNull = None"
| "bson_check (VBool b) = None"
| "bson_check (VStr s) = None"
| "bson_check (VOid x) = None"
| "bson_check (VTime t) = None"
| "bson_check (VBytes b) = None"
| "bson_check (VFloat q) = None"
| "bson_check_list [] = None"
| "bson_check_list (x # xs) =
     (case bson_check x of Some e \<Rightarrow> Some e | None \<Rightarrow> bson_check_list xs)"
| "bson_check_fields [] = None"
| "bson_check_fields (kv # kvs) =
     (if CHR 0x00 \<in> set (fst kv) then Some InvalidDocument
      else (case bson_check (snd kv) of
              Some e \<Rightarrow> Some e
            | None \<Rightarrow> bson_check_fields kvs))"

definition hex_char :: "nat \<Rightarrow> char" where
  "hex_char d = (if d < 10 then char_of (48 + d) else char_of (87 + d))"

fun hex_digits :: "nat \<Rightarrow> nat \<Rightarrow> string" where
  "hex_digits 0 n = []"
| "hex_digits (Suc k) n = hex_digits k (n div 16) @ [hex_char (n mod 16)]"

definition new_oid :: "nat \<Rightarrow> string" where
  "new_oid n = hex_digits 24 n"

subsection \<open>Calling a Python function\<close>

text \<open>
  A call binds the positional arguments to the parameters from the left and then the
  keyword arguments by name. It raises a TypeError when there are more positional
  arguments than parameters, when a keyword names no parameter, when a keyword names a
  parameter that is already bound, and when a parameter stays unbound.
\<close>

fun bind_pos :: "string list \<Rightarrow> string list \<Rightarrow> pyexn + (string \<times> string) list" where
  "bind_pos ps [] = Inr []"
| "bind_pos [] (a # as) = Inl TypeError"
| "bind_pos (p # ps) (a # as) =
     (case bind_pos ps as of Inl e \<Rightarrow> Inl e | Inr b \<Rightarrow> Inr ((p, a) # b))"

fun bind_kw ::
  "string list \<Rightarrow> (string \<times> string) list \<Rightarrow> (string \<times> string) list
     \<Rightarrow> pyexn + (string \<times> string) list" where
  "bind_kw ps b [] = Inr b"
| "bind_kw ps b ((k, v) # kws) =
     (if k \<notin> set ps then Inl TypeError
      else if k \<in> set (map fst b) then Inl TypeError
      else bind_kw ps (b @ [(k, v)]) kws)"

definition bind_args ::
  "string list \<Rightarrow> string list \<Rightarrow> (string \<times> string) list \<Rightarrow> pyexn + (string \<times> string) list" where
  "bind_args ps args kwargs =
     then_do (bind_pos ps args) (\<lambda>b.
     then_do (bind_kw ps b kwargs) (\<lambda>b'.
       if list_all (\<lambda>p. p \<in> set (map fst b')) ps then Inr b' else Inl TypeError))"

section \<open>Tokens, users, application state, requests and responses\<close>

text \<open>
  The payload of a JSON Web Token as the handlers read it: the identity (\<^verbatim>\<open>sub\<close>), the
  additional claim \<^verbatim>\<open>role\<close>, the unique identifier \<^verbatim>\<open>jti\<close> and the token type. The
  extension draws each \<^verbatim>\<open>jti\<close> as a fresh UUID; the model numbers the draws. A token is
  represented by its payload: signing and encoding belong to the extension.
\<close>

datatype token_type = Access | Refresh

record claims =
  sub :: string
  role :: val
  jti :: nat
  ttype :: token_type

definition encode_token :: "claims \<Rightarrow> val" where
  "encode_token c =
     VObj [(''sub'', VStr (sub c)), (''role'', role c), (''jti'', VNum (int (jti c))),
           (''type'', VStr (case ttype c of Access \<Rightarrow> ''access'' | Refresh \<Rightarrow> ''refresh''))]"

text \<open>
  The outcome of a token check by the extension: either it rejects the request through its
  own error handler, with a status and a message of its own, or the token stands and
  \<^verbatim>\<open>get_jwt()\<close> returns the payload.
\<close>

datatype jwt_check = JwtError nat string | JwtOk claims

text \<open>
  The database handle \<^verbatim>\<open>db\<close>: \<^verbatim>\<open>None\<close> when the connection failed at start-up,
  otherwise a \<^verbatim>\<open>Database\<close> object. The flag of a handle tells whether \<^verbatim>\<open>bool(db)\<close>
  returns (a driver before PyMongo 4, or a mock of the driver) or raises
  NotImplementedError (PyMongo 4 and later).
\<close>

datatype db_handle = NoDatabase | Database bool

text \<open>
  A document of the \<^verbatim>\<open>users\<close> collection. Only \<^verbatim>\<open>signup\<close> writes users, always with
  these fields; \<^verbatim>\<open>role\<close> is whatever value the request supplied.
\<close>

record user =
  u_id :: string
  username :: string
  email :: string
  password :: string
  u_role :: val
  created_at :: nat
  updated_at :: nat

text \<open>
  The state of the process: the database handle, the two collections in insertion order
  (a roadmap is a dict), the module-level set \<^verbatim>\<open>token_blacklist\<close>, and the counters
  behind generated ObjectIds and token identifiers.
\<close>

record state =
  db :: db_handle
  users :: "user list"
  roadmaps :: "(string \<times> val) list list"
  token_blacklist :: "nat set"
  oid_count :: nat
  jti_count :: nat

text \<open>
  What a handler reads from its environment: the token that the request presents, as the
  extension decodes it (signature and expiry), the value returned by
  \<^verbatim>\<open>request.get_json()\<close>, the clock, the salt drawn by \<^verbatim>\<open>bcrypt.gensalt()\<close>, and
  whether the server accepts the document that the request writes, if it writes one
  (its size, its nesting, its field names).
\<close>

record request =
  presented :: jwt_check
  json :: val
  now :: nat
  salt :: string
  write_ok :: bool

text \<open>
  The token check that every \<^verbatim>\<open>@jwt_required()\<close> of the application makes. The decorator
  is always used without \<^verbatim>\<open>refresh=True\<close>, so it accepts access tokens only and
  answers a refresh token with 422. The application registers no blocklist callback, so
  the check does not depend on \<^verbatim>\<open>token_blacklist\<close>.
\<close>

definition jwt :: "request \<Rightarrow> jwt_check" where
  "jwt req =
     (case presented req of
        JwtError s m \<Rightarrow> JwtError s m
      | JwtOk c \<Rightarrow>
          (case ttype c of
             Access \<Rightarrow> JwtOk c
           | Refresh \<Rightarrow> JwtError 422 ''Only non-refresh tokens are allowed''))"

text \<open>
  The bcrypt library: its two functions are parameters of the model. Either may raise (a
  password over 72 bytes from bcrypt 5 on, a NUL byte in older versions).
\<close>

record bcrypt =
  hashpw :: "string \<Rightarrow> string \<Rightarrow> pyexn + string"
  checkpw :: "string \<Rightarrow> string \<Rightarrow> pyexn + bool"

datatype response = Response (status: nat) (body: val)

type_synonym outcome = "pyexn + response \<times> state"

type_synonym pyfun = "string list \<Rightarrow> (string \<times> string) list \<Rightarrow> request \<Rightarrow> state \<Rightarrow> outcome"

definition error_json :: "string \<Rightarrow> val" where
  "error_json m = VObj [(''error'', VStr m)]"

definition reply :: "nat \<Rightarrow> val \<Rightarrow> state \<Rightarrow> outcome" where
  "reply s b st = Inr (Response s b, st)"

definition fail :: "nat \<Rightarrow> string \<Rightarrow> state \<Rightarrow> outcome" where
  "fail s m st = Inr (Response s (error_json m), st)"

text \<open>\<^verbatim>\<open>not db\<close>, the test that opens most handler bodies.\<close>

definition not_db :: "state \<Rightarrow> pyexn + bool" where
  "not_db st =
     (case db st of
        NoDatabase \<Rightarrow> Inr True
      | Database has_truth_value \<Rightarrow>
          if has_truth_value then Inr False else Inl NotImplementedError)"

text \<open>
  \<^verbatim>\<open>try: ... except Exception as e: return jsonify({"error": f"...{str(e)}"}), 500\<close>.
  A body writes to the store at most once and nothing that follows the write raises, so
  the state at the handler is the state in which the body started.
\<close>

definition caught :: "string \<Rightarrow> state \<Rightarrow> outcome \<Rightarrow> response \<times> state" where
  "caught prefix st m =
     (case m of Inl e \<Rightarrow> (Response 500 (error_json (prefix @ exn_text e)), st) | Inr r \<Rightarrow> r)"

text \<open>
  \<^verbatim>\<open>def f(p1, ..., pn)\<close>: the function as a Python callable. The TypeError of a failed
  binding is raised by the call, before the body and its \<^verbatim>\<open>try\<close> begin.
\<close>

definition def0 :: "(request \<Rightarrow> state \<Rightarrow> response \<times> state) \<Rightarrow> pyfun" where
  "def0 f args kwargs req st =
     then_do (bind_args [] args kwargs) (\<lambda>b. Inr (f req st))"

definition def1 :: "string \<Rightarrow> (string \<Rightarrow> request \<Rightarrow> state \<Rightarrow> response \<times> state) \<Rightarrow> pyfun" where
  "def1 p1 f args kwargs req st =
     then_do (bind_args [p1] args kwargs) (\<lambda>b.
       case map_of b p1 of
         Some a1 \<Rightarrow> Inr (f a1 req st)
       | None \<Rightarrow> Inl TypeError)"

definition def2 ::
  "string \<Rightarrow> string \<Rightarrow> (string \<Rightarrow> string \<Rightarrow> request \<Rightarrow> state \<Rightarrow> response \<times> state) \<Rightarrow> pyfun" where
  "def2 p1 p2 f args kwargs req st =
     then_do (bind_args [p1, p2] args kwargs) (\<lambda>b.
       case (map_of b p1, map_of b p2) of
         (Some a1, Some a2) \<Rightarrow> Inr (f a1 a2 req st)
       | _ \<Rightarrow> Inl TypeError)"

definition def3 ::
  "string \<Rightarrow> string \<Rightarrow> string
     \<Rightarrow> (string \<Rightarrow> string \<Rightarrow> string \<Rightarrow> request \<Rightarrow> state \<Rightarrow> response \<times> state) \<Rightarrow> pyfun" where
  "def3 p1 p2 p3 f args kwargs req st =
     then_do (bind_args [p1, p2, p3] args kwargs) (\<lambda>b.
       case (map_of b p1, map_of b p2, map_of b p3) of
         (Some a1, Some a2, Some a3) \<Rightarrow> Inr (f a1 a2 a3 req st)
       | _ \<Rightarrow> Inl TypeError)"

section \<open>Token management and the authentication decorators\<close>

text \<open>\<^verbatim>\<open>get_jwt()\<close> and \<^verbatim>\<open>get_jwt_identity()\<close>: a RuntimeError outside a verified request.\<close>

definition get_jwt :: "request \<Rightarrow> pyexn + claims" where
  "get_jwt req = (case jwt req of JwtOk c \<Rightarrow> Inr c | JwtError s m \<Rightarrow> Inl RuntimeError)"

definition get_jwt_identity :: "request \<Rightarrow> pyexn + string" where
  "get_jwt_identity req = (case jwt req of JwtOk c \<Rightarrow> Inr (sub c) | JwtError s m \<Rightarrow> Inl RuntimeError)"

text \<open>\<^verbatim>\<open>create_access_token\<close> and \<^verbatim>\<open>create_refresh_token\<close>, with the next fresh \<^verbatim>\<open>jti\<close>.\<close>

definition create_access_token :: "string \<Rightarrow> val \<Rightarrow> state \<Rightarrow> claims \<times> state" where
  "create_access_token identity r st =
     (\<lparr>sub = identity, role = r, jti = jti_count st, ttype = Access\<rparr>,
      st\<lparr>jti_count := Suc (jti_count st)\<rparr>)"

definition create_refresh_token :: "string \<Rightarrow> val \<Rightarrow> state \<Rightarrow> claims \<times> state" where
  "create_refresh_token identity r st =
     (\<lparr>sub = identity, role = r, jti = jti_count st, ttype = Refresh\<rparr>,
      st\<lparr>jti_count := Suc (jti_count st)\<rparr>)"

definition generate_tokens :: "string \<Rightarrow> val \<Rightarrow> state \<Rightarrow> (claims \<times> claims) \<times> state" where
  "generate_tokens uid r st =
     (let (access_token, st1) = create_access_token uid r st;
          (refresh_token, st2) = create_refresh_token uid r st1
      in ((access_token, refresh_token), st2))"

definition revoke_token :: "nat \<Rightarrow> state \<Rightarrow> state" where
  "revoke_token j st = st\<lparr>token_blacklist := insert j (token_blacklist st)\<rparr>"

definition is_token_revoked :: "claims \<Rightarrow> state \<Rightarrow> bool" where
  "is_token_revoked jwt_payload st = (jti jwt_payload \<in> token_blacklist st)"

text \<open>
  \<^verbatim>\<open>@jwt_required()\<close>: the extension answers a request that it rejects; otherwise the
  wrapped function is called with the same arguments.
\<close>

definition jwt_required :: "pyfun \<Rightarrow> pyfun" where
  "jwt_required f args kwargs req st =
     (case jwt req of
        JwtError s m \<Rightarrow> reply s (VObj [(''msg'', VStr m)]) st
      | JwtOk c \<Rightarrow> f args kwargs req st)"

text \<open>
  \<^verbatim>\<open>token_required(f)\<close>: rejects a revoked token with 401, otherwise calls
  \<^verbatim>\<open>f(current_user, *args, **kwargs)\<close>: the identity is a new first positional argument.
\<close>

definition token_required :: "pyfun \<Rightarrow> pyfun" where
  "token_required f =
     jwt_required (\<lambda>args kwargs req st.
       then_do (get_jwt_identity req) (\<lambda>current_user.
       then_do (get_jwt req) (\<lambda>claims.
         if is_token_revoked claims st then fail 401 ''Token has been revoked'' st
         else f (current_user # args) kwargs req st)))"

text \<open>
  \<^verbatim>\<open>admin_required(f)\<close>: rejects a revoked token with 401 and a role other than
  \<^verbatim>\<open>'admin'\<close> with 403, otherwise calls \<^verbatim>\<open>f(*args, **kwargs)\<close>.
\<close>

definition admin_required :: "pyfun \<Rightarrow> pyfun" where
  "admin_required f =
     jwt_required (\<lambda>args kwargs req st.
       then_do (get_jwt req) (\<lambda>claims.
         if is_token_revoked claims st then fail 401 ''Token has been revoked'' st
         else if role claims \<noteq> VStr ''admin'' then fail 403 ''Admin access required'' st
         else f args kwargs req st))"

section \<open>The document store\<close>

text \<open>
  The queries of the handlers, on the collections in insertion order. A filter
  \<^verbatim>\<open>{field: value}\<close> matches a document whose field equals the value or is an array
  containing it. \<^verbatim>\<open>find_one\<close> returns the first match or \<^verbatim>\<open>None\<close>;
  \<^verbatim>\<open>update_one\<close> and \<^verbatim>\<open>delete_one\<close> touch the first match only. \<^verbatim>\<open>$set\<close> with a
  different \<^verbatim>\<open>_id\<close> is refused by the server. Keys are taken as plain field names.
\<close>

definition mongo_eq :: "(string \<times> val) list \<Rightarrow> string \<Rightarrow> val \<Rightarrow> bool" where
  "mongo_eq d k v =
     (case map_of d k of
        None \<Rightarrow> False
      | Some (VArr xs) \<Rightarrow> v \<in> set xs
      | Some x \<Rightarrow> x = v)"

definition has_id :: "string \<Rightarrow> (string \<times> val) list \<Rightarrow> bool" where
  "has_id rid d = (map_of d ''_id'' = Some (VOid rid))"

definition find_roadmap :: "string \<Rightarrow> state \<Rightarrow> (string \<times> val) list option" where
  "find_roadmap rid st = find (has_id rid) (roadmaps st)"

fun update_first :: "('a \<Rightarrow> bool) \<Rightarrow> ('a \<Rightarrow> 'a) \<Rightarrow> 'a list \<Rightarrow> 'a list" where
  "update_first P f [] = []"
| "update_first P f (x # xs) = (if P x then f x # xs else x # update_first P f xs)"

fun delete_first :: "('a \<Rightarrow> bool) \<Rightarrow> 'a list \<Rightarrow> 'a list" where
  "delete_first P [] = []"
| "delete_first P (x # xs) = (if P x then xs else x # delete_first P xs)"

definition set_fields :: "(string \<times> val) list \<Rightarrow> (string \<times> val) list \<Rightarrow> (string \<times> val) list" where
  "set_fields d upd = foldl (\<lambda>acc (k, v). dict_set acc k v) d upd"

text \<open>
  A document on its way to the server: the encoder of the driver may refuse it, and so may
  the server.
\<close>

definition sent :: "request \<Rightarrow> val \<Rightarrow> pyexn + unit" where
  "sent req d =
     (case bson_check d of
        Some e \<Rightarrow> Inl e
      | None \<Rightarrow> if write_ok req then Inr () else Inl WriteError)"

definition update_one ::
  "string \<Rightarrow> (string \<times> val) list \<Rightarrow> request \<Rightarrow> state \<Rightarrow> pyexn + state" where
  "update_one rid upd req st =
     then_do (sent req (VObj upd)) (\<lambda>u.
       case find_roadmap rid st of
         None \<Rightarrow> Inr st
       | Some d \<Rightarrow>
           (case map_of upd ''_id'' of
              None \<Rightarrow>
                Inr (st\<lparr>roadmaps :=
                          update_first (has_id rid) (\<lambda>d. set_fields d upd) (roadmaps st)\<rparr>)
            | Some i \<Rightarrow>
                if i \<noteq> VOid rid then Inl WriteError
                else Inr (st\<lparr>roadmaps :=
                            update_first (has_id rid) (\<lambda>d. set_fields d upd) (roadmaps st)\<rparr>)))"

text \<open>\<^verbatim>\<open>delete_one\<close>: the new state and \<^verbatim>\<open>deleted_count\<close>.\<close>

definition delete_one :: "string \<Rightarrow> state \<Rightarrow> nat \<times> state" where
  "delete_one rid st =
     (case find_roadmap rid st of
        None \<Rightarrow> (0, st)
      | Some d \<Rightarrow> (1, st\<lparr>roadmaps := delete_first (has_id rid) (roadmaps st)\<rparr>))"

text \<open>
  \<^verbatim>\<open>insert_one\<close> on \<^verbatim>\<open>roadmaps\<close>: a document without \<^verbatim>\<open>_id\<close> gets a generated
  ObjectId, a document that brings its own \<^verbatim>\<open>_id\<close> keeps it and is refused when the
  collection already holds that \<^verbatim>\<open>_id\<close>. The result is \<^verbatim>\<open>inserted_id\<close>.
\<close>

definition insert_roadmap ::
  "(string \<times> val) list \<Rightarrow> request \<Rightarrow> state \<Rightarrow> pyexn + val \<times> state" where
  "insert_roadmap d req st =
     then_do (sent req (VObj d)) (\<lambda>u.
       case map_of d ''_id'' of
         Some i \<Rightarrow>
           if list_ex (\<lambda>d'. map_of d' ''_id'' = Some i) (roadmaps st) then Inl DuplicateKeyError
           else Inr (i, st\<lparr>roadmaps := roadmaps st @ [d]\<rparr>)
       | None \<Rightarrow>
           (let i = VOid (new_oid (oid_count st))
            in Inr (i, st\<lparr>roadmaps := roadmaps st @ [(''_id'', i) # d],
                           oid_count := Suc (oid_count st)\<rparr>)))"

text \<open>
  \<^verbatim>\<open>insert_one\<close> on \<^verbatim>\<open>users\<close>. Of the fields of a user document only the role is a
  value from the request body.
\<close>

definition insert_user :: "user \<Rightarrow> request \<Rightarrow> state \<Rightarrow> pyexn + string \<times> state" where
  "insert_user u req st =
     then_do (sent req (u_role u)) (\<lambda>x.
       let i = new_oid (oid_count st)
       in Inr (i, st\<lparr>users := users st @ [u\<lparr>u_id := i\<rparr>],
                      oid_count := Suc (oid_count st)\<rparr>))"

section \<open>Helpers of the handler bodies\<close>

text \<open>\<^verbatim>\<open>for field in fields: if field not in data: return ...\<close>: the first missing field.\<close>

fun first_missing :: "string list \<Rightarrow> val \<Rightarrow> pyexn + string option" where
  "first_missing [] d = Inr None"
| "first_missing (f # fs) d =
     (case py_in f d of
        Inl e \<Rightarrow> Inl e
      | Inr b \<Rightarrow> if b then first_missing fs d else Inr (Some f))"

fun map_exn :: "('a \<Rightarrow> pyexn + 'b) \<Rightarrow> 'a list \<Rightarrow> pyexn + 'b list" where
  "map_exn f [] = Inr []"
| "map_exn f (x # xs) =
     (case f x of
        Inl e \<Rightarrow> Inl e
      | Inr y \<Rightarrow> (case map_exn f xs of Inl e \<Rightarrow> Inl e | Inr ys \<Rightarrow> Inr (y # ys)))"

text \<open>\<^verbatim>\<open>for x in v\<close>: the elements of a list, the characters of a string, the keys of a dict.\<close>

fun py_iter :: "val \<Rightarrow> pyexn + val list" where
  "py_iter (VArr xs) = Inr xs"
| "py_iter (VStr s) = Inr (map (\<lambda>c. VStr [c]) s)"
| "py_iter (VObj kvs) = Inr (map (\<lambda>kv. VStr (fst kv)) kvs)"
| "py_iter (VBytes b) = Inr (map (\<lambda>c. VNum (of_char c)) b)"
| "py_iter VNull = Inl TypeError"
| "py_iter (VBool b) = Inl TypeError"
| "py_iter (VNum n) = Inl TypeError"
| "py_iter (VOid x) = Inl TypeError"
| "py_iter (VTime t) = Inl TypeError"
| "py_iter (VFloat q) = Inl TypeError"

text \<open>\<^verbatim>\<open>d[k] = str(d[k])\<close> on a document.\<close>

definition str_field :: "string \<Rightarrow> (string \<times> val) list \<Rightarrow> pyexn + (string \<times> val) list" where
  "str_field k d =
     (case map_of d k of
        None \<Rightarrow> Inl KeyError
      | Some v \<Rightarrow> Inr (dict_set d k (VStr (py_str v))))"

text \<open>The conversion loop of the two roadmap listings.\<close>

definition listed_roadmap :: "(string \<times> val) list \<Rightarrow> pyexn + val" where
  "listed_roadmap d =
     then_do (str_field ''_id'' d) (\<lambda>d1.
       if ''created_by'' \<in> set (map fst d1)
       then then_do (str_field ''created_by'' d1) (\<lambda>d2. Inr (VObj d2))
       else Inr (VObj d1))"

text \<open>The node validation loop of \<^verbatim>\<open>create_roadmap\<close>: the message of the first failure.\<close>

fun check_nodes :: "nat \<Rightarrow> val list \<Rightarrow> pyexn + string option" where
  "check_nodes i [] = Inr None"
| "check_nodes i (node # rest) =
     (case first_missing [''id'', ''title'', ''description'', ''position_x'', ''position_y''] node of
        Inl e \<Rightarrow> Inl e
      | Inr (Some field) \<Rightarrow>
          Inr (Some (''Node '' @ show_nat i @ '' missing required field: '' @ field))
      | Inr None \<Rightarrow> check_nodes (Suc i) rest)"

text \<open>
  The access test shared by \<^verbatim>\<open>toggle_node_completion\<close> and \<^verbatim>\<open>get_roadmap_progress\<close>:
  true when the request is denied. The conjunction is evaluated from the left, so
  \<^verbatim>\<open>roadmap['created_by']\<close> is read only for a roadmap that is not public.
\<close>

definition access_denied :: "(string \<times> val) list \<Rightarrow> string \<Rightarrow> claims \<Rightarrow> pyexn + bool" where
  "access_denied roadmap current_user_id c =
     (if truthy (case map_of roadmap ''is_public'' of None \<Rightarrow> VBool False | Some v \<Rightarrow> v)
      then Inr False
      else then_do (py_getitem (VObj roadmap) ''created_by'') (\<lambda>owner.
             Inr (py_str owner \<noteq> current_user_id \<and> role c \<noteq> VStr ''admin'')))"

text \<open>
  The ownership test shared by \<^verbatim>\<open>update_roadmap\<close> and \<^verbatim>\<open>delete_roadmap\<close>: true when
  the request is denied.
\<close>

definition not_owner_or_admin :: "(string \<times> val) list \<Rightarrow> string \<Rightarrow> claims \<Rightarrow> pyexn + bool" where
  "not_owner_or_admin roadmap current_user_id c =
     then_do (py_getitem (VObj roadmap) ''created_by'') (\<lambda>owner.
       Inr (py_str owner \<noteq> current_user_id \<and> role c \<noteq> VStr ''admin''))"

text \<open>
  The first loop of \<^verbatim>\<open>toggle_node_completion\<close>: flips \<^verbatim>\<open>completed\<close> of the first node
  whose \<^verbatim>\<open>str(node['id'])\<close> is the requested id; \<open>None\<close> when no node has it.
\<close>

fun toggle_first :: "string \<Rightarrow> val list \<Rightarrow> pyexn + val list option" where
  "toggle_first node_id [] = Inr None"
| "toggle_first node_id (node # rest) =
     (case py_getitem node ''id'' of
        Inl e \<Rightarrow> Inl e
      | Inr i \<Rightarrow>
          if py_str i = node_id
          then (case py_get node ''completed'' (VBool False) of
                  Inl e \<Rightarrow> Inl e
                | Inr c \<Rightarrow>
                    (case py_setitem node ''completed'' (VBool (\<not> truthy c)) of
                       Inl e \<Rightarrow> Inl e
                     | Inr node' \<Rightarrow> Inr (Some (node' # rest))))
          else (case toggle_first node_id rest of
                  Inl e \<Rightarrow> Inl e
                | Inr None \<Rightarrow> Inr None
                | Inr (Some rest') \<Rightarrow> Inr (Some (node # rest'))))"

text \<open>The second loop: the first node with the requested id, \<^verbatim>\<open>None\<close> without one.\<close>

fun find_node :: "string \<Rightarrow> val list \<Rightarrow> pyexn + val" where
  "find_node node_id [] = Inr VNull"
| "find_node node_id (node # rest) =
     (case py_getitem node ''id'' of
        Inl e \<Rightarrow> Inl e
      | Inr i \<Rightarrow> if py_str i = node_id then Inr node else find_node node_id rest)"

text \<open>\<^verbatim>\<open>node.get('completed', False)\<close> as a truth value, for the progress counts.\<close>

definition node_completed :: "val \<Rightarrow> pyexn + bool" where
  "node_completed node = then_do (py_get node ''completed'' (VBool False)) (\<lambda>c. Inr (truthy c))"

fun select_nodes :: "bool \<Rightarrow> val list \<Rightarrow> pyexn + val list" where
  "select_nodes want [] = Inr []"
| "select_nodes want (node # rest) =
     (case node_completed node of
        Inl e \<Rightarrow> Inl e
      | Inr c \<Rightarrow>
          (case select_nodes want rest of
             Inl e \<Rightarrow> Inl e
           | Inr ns \<Rightarrow> Inr (if c = want then node # ns else ns)))"

text \<open>
  \<^verbatim>\<open>hash_password\<close> and \<^verbatim>\<open>check_password\<close>: \<^verbatim>\<open>password.encode\<close> exists on a string
  only; then bcrypt does its work, or raises.
\<close>

definition hash_password :: "bcrypt \<Rightarrow> val \<Rightarrow> string \<Rightarrow> pyexn + string" where
  "hash_password B pw slt =
     (case pw of VStr p \<Rightarrow> hashpw B p slt | _ \<Rightarrow> Inl AttributeError)"

definition check_password :: "bcrypt \<Rightarrow> val \<Rightarrow> string \<Rightarrow> pyexn + bool" where
  "check_password B pw hashed =
     (case pw of VStr p \<Rightarrow> checkpw B p hashed | _ \<Rightarrow> Inl AttributeError)"

section \<open>The handlers\<close>

text \<open>
  Each handler of \<^verbatim>\<open>app.py\<close> is given twice: \<open>f_body\<close> is the function as written,
  applied to its parameters, and \<open>f\<close> is the name as the module binds it, that is the
  function under its decorators, a Python callable.
\<close>

subsection \<open>Public routes\<close>

definition index_body :: "request \<Rightarrow> state \<Rightarrow> response \<times> state" where
  "index_body req st =
     (Response 200 (VObj [(''message'', VStr ''Welcome to the Roadmap Flask API with MongoDB'')]), st)"

definition index :: pyfun where
  "index = def0 index_body"

text \<open>The timestamp is the clock value; its ISO text is not spelled out.\<close>

definition health_check_body :: "request \<Rightarrow> state \<Rightarrow> response \<times> state" where
  "health_check_body req st =
     (Response 200
        (VObj [(''status'', VStr ''healthy''),
               (''database'', VStr (if db st \<noteq> NoDatabase then ''healthy'' else ''unhealthy'')),
               (''timestamp'', VTime (now req))]), st)"

definition health_check :: pyfun where
  "health_check = def0 health_check_body"

subsection \<open>Roadmaps\<close>

definition get_roadmaps_body :: "string \<Rightarrow> request \<Rightarrow> state \<Rightarrow> response \<times> state" where
  "get_roadmaps_body current_user_id req st =
     caught ''Failed to fetch roadmaps: '' st
       (then_do (not_db st) (\<lambda>no_db. if no_db then fail 503 ''Database connection not available'' st
        else
          then_do (get_jwt req) (\<lambda>c.
          then_do (ObjectId current_user_id) (\<lambda>uid.
          then_do (map_exn listed_roadmap
                     (if role c = VStr ''admin'' then roadmaps st
                      else filter (\<lambda>d. mongo_eq d ''is_public'' (VBool True)
                                        \<or> mongo_eq d ''created_by'' (VOid uid)) (roadmaps st)))
            (\<lambda>docs. reply 200 (VObj [(''roadmaps'', VArr docs)]) st)))))"

definition get_roadmaps :: pyfun where
  "get_roadmaps = token_required (def1 ''current_user_id'' get_roadmaps_body)"

definition create_roadmap_body :: "string \<Rightarrow> request \<Rightarrow> state \<Rightarrow> response \<times> state" where
  "create_roadmap_body current_user_id req st =
     caught ''Failed to create roadmap: '' st
       (then_do (not_db st) (\<lambda>no_db. if no_db then fail 503 ''Database connection not available'' st
        else if \<not> truthy (json req) then fail 400 ''No data provided'' st
        else
          then_do (first_missing
                     [''title'', ''description'', ''category'', ''difficulty_level'', ''nodes'']
                     (json req)) (\<lambda>missing.
          case missing of
            Some field \<Rightarrow> fail 400 (field @ '' is required'') st
          | None \<Rightarrow>
              then_do (py_getitem (json req) ''nodes'') (\<lambda>nodes.
              case nodes of
                VArr (n # ns) \<Rightarrow>
                  then_do (check_nodes 0 (n # ns)) (\<lambda>bad.
                  case bad of
                    Some msg \<Rightarrow> fail 400 msg st
                  | None \<Rightarrow>
                      then_do (ObjectId current_user_id) (\<lambda>uid.
                      then_do (py_setitem (json req) ''created_by'' (VOid uid)) (\<lambda>d1.
                      then_do (py_get d1 ''is_public'' (VBool False)) (\<lambda>pub.
                      then_do (py_setitem d1 ''is_public'' pub) (\<lambda>d2.
                      then_do (py_get d2 ''tags'' (VArr [])) (\<lambda>tags.
                      then_do (py_setitem d2 ''tags'' tags) (\<lambda>d3.
                      then_do (py_setitem d3 ''created_at'' (VTime (now req))) (\<lambda>d4.
                      then_do (py_setitem d4 ''updated_at'' (VTime (now req))) (\<lambda>d5.
                      then_do (map_exn (\<lambda>node. py_setitem node ''completed'' (VBool False))
                                 (n # ns)) (\<lambda>nodes'.
                      then_do (py_setitem d5 ''nodes'' (VArr nodes')) (\<lambda>d6.
                      case d6 of
                        VObj doc \<Rightarrow>
                          then_do (insert_roadmap doc req st) (\<lambda>(inserted_id, st').
                            reply 201
                              (VObj [(''message'', VStr ''Roadmap created successfully''),
                                     (''id'', VStr (py_str inserted_id))]) st')
                      | _ \<Rightarrow> Inl TypeError)))))))))))
              | _ \<Rightarrow> fail 400 ''Nodes must be a non-empty array'' st))))"

definition create_roadmap :: pyfun where
  "create_roadmap = token_required (def1 ''current_user_id'' create_roadmap_body)"

definition get_roadmap_body :: "string \<Rightarrow> string \<Rightarrow> request \<Rightarrow> state \<Rightarrow> response \<times> state" where
  "get_roadmap_body roadmap_id current_user_id req st =
     caught ''Failed to fetch roadmap: '' st
       (then_do (not_db st) (\<lambda>no_db. if no_db then fail 503 ''Database connection not available'' st
        else
          then_do (get_jwt req) (\<lambda>c.
          then_do (ObjectId roadmap_id) (\<lambda>rid.
          then_do (if role c \<noteq> VStr ''admin''
                   then then_do (ObjectId current_user_id) (\<lambda>uid.
                          Inr (find (\<lambda>d. has_id rid d
                                          \<and> (mongo_eq d ''is_public'' (VBool True)
                                               \<or> mongo_eq d ''created_by'' (VOid uid)))
                                 (roadmaps st)))
                   else Inr (find (has_id rid) (roadmaps st))) (\<lambda>found.
          case found of
            None \<Rightarrow> fail 404 ''Roadmap not found or access denied'' st
          | Some roadmap \<Rightarrow>
              then_do (str_field ''_id'' roadmap) (\<lambda>d1.
              then_do (str_field ''created_by'' d1) (\<lambda>d2.
                reply 200 (VObj [(''roadmap'', VObj d2)]) st)))))))"

definition get_roadmap :: pyfun where
  "get_roadmap = token_required (def2 ''roadmap_id'' ''current_user_id'' get_roadmap_body)"

definition update_roadmap_body :: "string \<Rightarrow> string \<Rightarrow> request \<Rightarrow> state \<Rightarrow> response \<times> state" where
  "update_roadmap_body roadmap_id current_user_id req st =
     caught ''Failed to update roadmap: '' st
       (then_do (not_db st) (\<lambda>no_db. if no_db then fail 503 ''Database connection not available'' st
        else if \<not> truthy (json req) then fail 400 ''No data provided'' st
        else
          then_do (get_jwt req) (\<lambda>c.
          then_do (ObjectId roadmap_id) (\<lambda>rid.
          case find_roadmap rid st of
            None \<Rightarrow> fail 404 ''Roadmap not found'' st
          | Some roadmap \<Rightarrow>
              then_do (not_owner_or_admin roadmap current_user_id c) (\<lambda>denied.
              if denied
              then fail 403 ''Access denied. Only owner or admin can update roadmap'' st
              else
                then_do (py_setitem (json req) ''updated_at'' (VTime (now req))) (\<lambda>data.
                case data of
                  VObj upd \<Rightarrow>
                    then_do (update_one rid upd req st) (\<lambda>st'.
                      reply 200 (VObj [(''message'', VStr ''Roadmap updated successfully'')]) st')
                | _ \<Rightarrow> Inl TypeError))))))"

definition update_roadmap :: pyfun where
  "update_roadmap = token_required (def2 ''roadmap_id'' ''current_user_id'' update_roadmap_body)"

definition delete_roadmap_body :: "string \<Rightarrow> string \<Rightarrow> request \<Rightarrow> state \<Rightarrow> response \<times> state" where
  "delete_roadmap_body roadmap_id current_user_id req st =
     caught ''Failed to delete roadmap: '' st
       (then_do (not_db st) (\<lambda>no_db. if no_db then fail 503 ''Database connection not available'' st
        else
          then_do (get_jwt req) (\<lambda>c.
          then_do (ObjectId roadmap_id) (\<lambda>rid.
          case find_roadmap rid st of
            None \<Rightarrow> fail 404 ''Roadmap not found'' st
          | Some roadmap \<Rightarrow>
              then_do (not_owner_or_admin roadmap current_user_id c) (\<lambda>denied.
              if denied
              then fail 403 ''Access denied. Only owner or admin can delete roadmap'' st
              else reply 200 (VObj [(''message'', VStr ''Roadmap deleted successfully'')])
                     (snd (delete_one rid st)))))))"

definition delete_roadmap :: pyfun where
  "delete_roadmap = token_required (def2 ''roadmap_id'' ''current_user_id'' delete_roadmap_body)"

subsection \<open>Nodes\<close>

definition toggle_node_completion_body ::
  "string \<Rightarrow> string \<Rightarrow> string \<Rightarrow> request \<Rightarrow> state \<Rightarrow> response \<times> state" where
  "toggle_node_completion_body roadmap_id node_id current_user_id req st =
     caught ''Failed to toggle node completion: '' st
       (then_do (not_db st) (\<lambda>no_db. if no_db then fail 503 ''Database connection not available'' st
        else
          then_do (get_jwt req) (\<lambda>c.
          then_do (ObjectId roadmap_id) (\<lambda>rid.
          case find_roadmap rid st of
            None \<Rightarrow> fail 404 ''Roadmap not found'' st
          | Some roadmap \<Rightarrow>
              then_do (access_denied roadmap current_user_id c) (\<lambda>denied.
              if denied then fail 403 ''Access denied'' st
              else
                then_do (py_iter (case map_of roadmap ''nodes'' of None \<Rightarrow> VArr [] | Some v \<Rightarrow> v))
                  (\<lambda>nodes.
                then_do (toggle_first node_id nodes) (\<lambda>toggled.
                case toggled of
                  None \<Rightarrow> fail 404 ''Node not found'' st
                | Some nodes' \<Rightarrow>
                    then_do (update_one rid
                               [(''nodes'', VArr nodes'), (''updated_at'', VTime (now req))]
                               req st)
                      (\<lambda>st'.
                    then_do (find_node node_id nodes') (\<lambda>updated_node.
                      reply 200 (VObj [(''message'', VStr ''Node completion status updated''),
                                       (''node'', updated_node)]) st')))))))))"

definition toggle_node_completion :: pyfun where
  "toggle_node_completion =
     token_required
       (def3 ''roadmap_id'' ''node_id'' ''current_user_id'' toggle_node_completion_body)"

definition get_roadmap_progress_body ::
  "string \<Rightarrow> string \<Rightarrow> request \<Rightarrow> state \<Rightarrow> response \<times> state" where
  "get_roadmap_progress_body roadmap_id current_user_id req st =
     caught ''Failed to fetch progress: '' st
       (then_do (not_db st) (\<lambda>no_db. if no_db then fail 503 ''Database connection not available'' st
        else
          then_do (get_jwt req) (\<lambda>c.
          then_do (ObjectId roadmap_id) (\<lambda>rid.
          case find_roadmap rid st of
            None \<Rightarrow> fail 404 ''Roadmap not found'' st
          | Some roadmap \<Rightarrow>
              then_do (access_denied roadmap current_user_id c) (\<lambda>denied.
              if denied then fail 403 ''Access denied'' st
              else
                (let nodes = (case map_of roadmap ''nodes'' of None \<Rightarrow> VArr [] | Some v \<Rightarrow> v)
                 in then_do (py_len nodes) (\<lambda>total_nodes.
                    then_do (py_iter nodes) (\<lambda>items.
                    then_do (select_nodes True items) (\<lambda>completed.
                    then_do (py_getitem (VObj roadmap) ''_id'') (\<lambda>i.
                    then_do (select_nodes False items) (\<lambda>pending.
                      reply 200
                        (VObj [(''progress'',
                           VObj [(''roadmap_id'', VStr (py_str i)),
                                 (''total_nodes'', VNum (int total_nodes)),
                                 (''completed_nodes'', VNum (int (length completed))),
                                 (''progress_percentage'',
                                    if total_nodes > 0
                                    then VFloat (of_nat (length completed) / of_nat total_nodes * 100)
                                    else VNum 0),
                                 (''completed_nodes_list'', VArr completed),
                                 (''pending_nodes_list'', VArr pending)])]) st)))))))))))"

definition get_roadmap_progress :: pyfun where
  "get_roadmap_progress =
     token_required (def2 ''roadmap_id'' ''current_user_id'' get_roadmap_progress_body)"

subsection \<open>Admin-only routes\<close>

definition get_all_roadmaps_admin_body :: "request \<Rightarrow> state \<Rightarrow> response \<times> state" where
  "get_all_roadmaps_admin_body req st =
     caught ''Failed to fetch roadmaps: '' st
       (then_do (not_db st) (\<lambda>no_db. if no_db then fail 503 ''Database connection not available'' st
        else then_do (map_exn listed_roadmap (roadmaps st)) (\<lambda>docs.
               reply 200 (VObj [(''roadmaps'', VArr docs)]) st)))"

definition get_all_roadmaps_admin :: pyfun where
  "get_all_roadmaps_admin = admin_required (def0 get_all_roadmaps_admin_body)"

definition force_delete_roadmap_body :: "string \<Rightarrow> request \<Rightarrow> state \<Rightarrow> response \<times> state" where
  "force_delete_roadmap_body roadmap_id req st =
     caught ''Failed to force delete roadmap: '' st
       (then_do (not_db st) (\<lambda>no_db. if no_db then fail 503 ''Database connection not available'' st
        else
          then_do (ObjectId roadmap_id) (\<lambda>rid.
            case delete_one rid st of
              (deleted_count, st') \<Rightarrow>
                if deleted_count = 0 then fail 404 ''Roadmap not found'' st
                else reply 200
                       (VObj [(''message'', VStr ''Roadmap force deleted successfully by admin'')])
                       st')))"

definition force_delete_roadmap :: pyfun where
  "force_delete_roadmap = admin_required (def1 ''roadmap_id'' force_delete_roadmap_body)"

subsection \<open>Authentication routes\<close>

definition signup_body :: "bcrypt \<Rightarrow> request \<Rightarrow> state \<Rightarrow> response \<times> state" where
  "signup_body B req st =
     caught ''Registration failed: '' st
       (then_do (not_db st) (\<lambda>no_db. if no_db then fail 503 ''Database connection not available'' st
        else if \<not> truthy (json req) then fail 400 ''No data provided'' st
        else
          then_do (first_missing [''username'', ''email'', ''password''] (json req)) (\<lambda>missing.
          case missing of
            Some field \<Rightarrow> fail 400 (field @ '' is required'') st
          | None \<Rightarrow>
              then_do (py_getitem (json req) ''username'') (\<lambda>u0.
              then_do (py_strip u0) (\<lambda>uname.
              then_do (py_getitem (json req) ''email'') (\<lambda>e0.
              then_do (py_strip e0) (\<lambda>e1.
              then_do (py_getitem (json req) ''password'') (\<lambda>pw.
                if length uname < 3
                then fail 400 ''Username must be at least 3 characters long'' st
                else if length (lower e1) < 5 \<or> CHR ''@'' \<notin> set (lower e1)
                then fail 400 ''Valid email is required'' st
                else
                  then_do (validate_password pw) (\<lambda>(is_valid, password_message).
                  if \<not> is_valid then fail 400 password_message st
                  else
                    (case find (\<lambda>u. username u = uname \<or> email u = lower e1) (users st) of
                       Some existing_user \<Rightarrow>
                         if username existing_user = uname
                         then fail 409 ''Username already exists'' st
                         else fail 409 ''Email already exists'' st
                     | None \<Rightarrow>
                         then_do (hash_password B pw (salt req)) (\<lambda>hashed_password.
                         then_do (py_get (json req) ''role'' (VStr ''user'')) (\<lambda>r.
                         then_do (insert_user
                                    \<lparr>u_id = [], username = uname, email = lower e1,
                                     password = hashed_password, u_role = r,
                                     created_at = now req, updated_at = now req\<rparr> req st)
                           (\<lambda>(inserted_id, st1).
                           (let ((access_token, refresh_token), st2) =
                                  generate_tokens inserted_id r st1
                            in reply 201
                                 (VObj [(''message'', VStr ''User created successfully''),
                                        (''user'', VObj [(''id'', VStr inserted_id),
                                                         (''username'', VStr uname),
                                                         (''email'', VStr (lower e1)),
                                                         (''role'', r)]),
                                        (''access_token'', encode_token access_token),
                                        (''refresh_token'', encode_token refresh_token)])
                                 st2))))))))))))))"

definition signup :: "bcrypt \<Rightarrow> pyfun" where
  "signup B = def0 (signup_body B)"

definition login_body :: "bcrypt \<Rightarrow> request \<Rightarrow> state \<Rightarrow> response \<times> state" where
  "login_body B req st =
     caught ''Login failed: '' st
       (then_do (not_db st) (\<lambda>no_db. if no_db then fail 503 ''Database connection not available'' st
        else if \<not> truthy (json req) then fail 400 ''No data provided'' st
        else
          then_do (first_missing [''email'', ''password''] (json req)) (\<lambda>missing.
          case missing of
            Some field \<Rightarrow> fail 400 ''Email and password are required'' st
          | None \<Rightarrow>
              then_do (py_getitem (json req) ''email'') (\<lambda>e0.
              then_do (py_strip e0) (\<lambda>e1.
              then_do (py_getitem (json req) ''password'') (\<lambda>pw.
                case find (\<lambda>u. email u = lower e1) (users st) of
                  None \<Rightarrow> fail 401 ''Invalid email or password'' st
                | Some u \<Rightarrow>
                    then_do (check_password B pw (password u)) (\<lambda>ok.
                    if \<not> ok then fail 401 ''Invalid email or password'' st
                    else
                      (let ((access_token, refresh_token), st1) =
                             generate_tokens (u_id u) (u_role u) st
                       in reply 200
                            (VObj [(''message'', VStr ''Login successful''),
                                   (''user'', VObj [(''id'', VStr (u_id u)),
                                                    (''username'', VStr (username u)),
                                                    (''email'', VStr (email u)),
                                                    (''role'', u_role u)]),
                                   (''access_token'', encode_token access_token),
                                   (''refresh_token'', encode_token refresh_token)])
                            st1))))))))"

definition login :: "bcrypt \<Rightarrow> pyfun" where
  "login B = def0 (login_body B)"

definition logout_body :: "request \<Rightarrow> state \<Rightarrow> response \<times> state" where
  "logout_body req st =
     caught ''Logout failed: '' st
       (then_do (get_jwt req) (\<lambda>c.
          reply 200 (VObj [(''message'', VStr ''Successfully logged out'')])
            (revoke_token (jti c) st)))"

definition logout :: pyfun where
  "logout = jwt_required (def0 logout_body)"

definition get_profile_body :: "string \<Rightarrow> request \<Rightarrow> state \<Rightarrow> response \<times> state" where
  "get_profile_body current_user_id req st =
     caught ''Failed to fetch profile: '' st
       (then_do (not_db st) (\<lambda>no_db. if no_db then fail 503 ''Database connection not available'' st
        else
          then_do (ObjectId current_user_id) (\<lambda>uid.
          case find (\<lambda>u. u_id u = uid) (users st) of
            None \<Rightarrow> fail 404 ''User not found'' st
          | Some u \<Rightarrow>
              reply 200
                (VObj [(''user'', VObj [(''id'', VStr (u_id u)),
                                        (''username'', VStr (username u)),
                                        (''email'', VStr (email u)),
                                        (''role'', u_role u),
                                        (''created_at'', VTime (created_at u)),
                                        (''updated_at'', VTime (updated_at u))])]) st)))"

definition get_profile :: pyfun where
  "get_profile = token_required (def1 ''current_user_id'' get_profile_body)"

text \<open>
  \<^verbatim>\<open>refresh_token\<close>: under \<^verbatim>\<open>@jwt_required()\<close> alone. The body reads the identity and
  the payload, looks the user up and issues an access token with the stored role. It never
  calls \<^verbatim>\<open>is_token_revoked\<close>.
\<close>

definition refresh_token_body :: "request \<Rightarrow> state \<Rightarrow> response \<times> state" where
  "refresh_token_body req st =
     caught ''Token refresh failed: '' st
       (then_do (get_jwt_identity req) (\<lambda>current_user.
        then_do (get_jwt req) (\<lambda>c.
          then_do (not_db st) (\<lambda>no_db. if no_db then fail 503 ''Database connection not available'' st
          else
            then_do (ObjectId current_user) (\<lambda>uid.
            case find (\<lambda>u. u_id u = uid) (users st) of
              None \<Rightarrow> fail 404 ''User not found'' st
            | Some u \<Rightarrow>
                (let (new_access_token, st1) = create_access_token current_user (u_role u) st
                 in reply 200
                      (VObj [(''access_token'', encode_token new_access_token),
                             (''message'', VStr ''Token refreshed successfully'')]) st1))))))"

definition refresh_token :: pyfun where
  "refresh_token = jwt_required (def0 refresh_token_body)"

definition listed_user :: "user \<Rightarrow> val" where
  "listed_user u =
     VObj [(''_id'', VStr (u_id u)), (''username'', VStr (username u)),
           (''email'', VStr (email u)), (''role'', u_role u),
           (''created_at'', VTime (created_at u)), (''updated_at'', VTime (updated_at u))]"

definition get_all_users_body :: "request \<Rightarrow> state \<Rightarrow> response \<times> state" where
  "get_all_users_body req st =
     caught ''Failed to fetch users: '' st
       (then_do (not_db st) (\<lambda>no_db. if no_db then fail 503 ''Database connection not available'' st
        else reply 200 (VObj [(''users'', VArr (map listed_user (users st)))]) st))"

definition get_all_users :: pyfun where
  "get_all_users = admin_required (def0 get_all_users_body)"

section \<open>Routing\<close>

text \<open>
  The routes registered with \<^verbatim>\<open>@app.route\<close>. Flask calls the view function of the matched
  rule with the variables of the URL as keyword arguments and no positional argument. An
  exception that leaves the view function is answered with status 500, by the handler
  registered with \<^verbatim>\<open>@app.errorhandler(500)\<close> (in debug mode by the debugger's page,
  with the same status).
\<close>

datatype route =
    Index
  | Health
  | GetRoadmaps
  | CreateRoadmap
  | GetRoadmap string
  | UpdateRoadmap string
  | DeleteRoadmap string
  | ToggleNode string string
  | GetProgress string
  | AdminRoadmaps
  | ForceDelete string
  | Signup
  | Login
  | Logout
  | Profile
  | RefreshRoute
  | AdminUsers

definition internal_error :: "response" where
  "internal_error = Response 500 (error_json ''Internal server error'')"

definition flask_call ::
  "pyfun \<Rightarrow> (string \<times> string) list \<Rightarrow> request \<Rightarrow> state \<Rightarrow> response \<times> state" where
  "flask_call view view_args req st =
     (case view [] view_args req st of
        Inl e \<Rightarrow> (internal_error, st)
      | Inr r \<Rightarrow> r)"

fun dispatch :: "bcrypt \<Rightarrow> route \<Rightarrow> request \<Rightarrow> state \<Rightarrow> response \<times> state" where
  "dispatch B Index req st = flask_call index [] req st"
| "dispatch B Health req st = flask_call health_check [] req st"
| "dispatch B GetRoadmaps req st = flask_call get_roadmaps [] req st"
| "dispatch B CreateRoadmap req st = flask_call create_roadmap [] req st"
| "dispatch B (GetRoadmap rid) req st = flask_call get_roadmap [(''roadmap_id'', rid)] req st"
| "dispatch B (UpdateRoadmap rid) req st =
     flask_call update_roadmap [(''roadmap_id'', rid)] req st"
| "dispatch B (DeleteRoadmap rid) req st =
     flask_call delete_roadmap [(''roadmap_id'', rid)] req st"
| "dispatch B (ToggleNode rid nid) req st =
     flask_call toggle_node_completion [(''roadmap_id'', rid), (''node_id'', nid)] req st"
| "dispatch B (GetProgress rid) req st =
     flask_call get_roadmap_progress [(''roadmap_id'', rid)] req st"
| "dispatch B AdminRoadmaps req st = flask_call get_all_roadmaps_admin [] req st"
| "dispatch B (ForceDelete rid) req st =
     flask_call force_delete_roadmap [(''roadmap_id'', rid)] req st"
| "dispatch B Signup req st = flask_call (signup B) [] req st"
| "dispatch B Login req st = flask_call (login B) [] req st"
| "dispatch B Logout req st = flask_call logout [] req st"
| "dispatch B Profile req st = flask_call get_profile [] req st"
| "dispatch B RefreshRoute req st = flask_call refresh_token [] req st"
| "dispatch B AdminUsers req st = flask_call get_all_users [] req st"

text \<open>A sequence of requests, served one after the other; the state after the last.\<close>

fun serve :: "bcrypt \<Rightarrow> (route \<times> request) list \<Rightarrow> state \<Rightarrow> state" where
  "serve B [] st = st"
| "serve B ((r, req) # rest) st = serve B rest (snd (dispatch B r req st))"

section \<open>Auxiliary notions for the proofs\<close>

text \<open>An outcome that leaves \<^verbatim>\<open>token_blacklist\<close> as it was in \<open>st\<close>.\<close>

definition same_blacklist :: "state \<Rightarrow> outcome \<Rightarrow> bool" where
  "same_blacklist st m =
     (case m of Inl e \<Rightarrow> True | Inr (r, st') \<Rightarrow> token_blacklist st' = token_blacklist st)"

text \<open>The routes whose view function is wrapped by one of the two decorators.\<close>

fun under_token_required :: "route \<Rightarrow> bool" where
  "under_token_required GetRoadmaps = True"
| "under_token_required CreateRoadmap = True"
| "under_token_required (GetRoadmap rid) = True"
| "under_token_required (UpdateRoadmap rid) = True"
| "under_token_required (DeleteRoadmap rid) = True"
| "under_token_required (ToggleNode rid nid) = True"
| "under_token_required (GetProgress rid) = True"
| "under_token_required Profile = True"
| "under_token_required Index = False"
| "under_token_required Health = False"
| "under_token_required AdminRoadmaps = False"
| "under_token_required (ForceDelete rid) = False"
| "under_token_required Signup = False"
| "under_token_required Login = False"
| "under_token_required Logout = False"
| "under_token_required RefreshRoute = False"
| "under_token_required AdminUsers = False"

fun under_admin_required :: "route \<Rightarrow> bool" where
  "under_admin_required AdminRoadmaps = True"
| "under_admin_required (ForceDelete rid) = True"
| "under_admin_required AdminUsers = True"
| "under_admin_required Index = False"
| "under_admin_required Health = False"
| "under_admin_required GetRoadmaps = False"
| "under_admin_required CreateRoadmap = False"
| "under_admin_required (GetRoadmap rid) = False"
| "under_admin_required (UpdateRoadmap rid) = False"
| "under_admin_required (DeleteRoadmap rid) = False"
| "under_admin_required (ToggleNode rid nid) = False"
| "under_admin_required (GetProgress rid) = False"
| "under_admin_required Signup = False"
| "under_admin_required Login = False"
| "under_admin_required Logout = False"
| "under_admin_required Profile = False"
| "under_admin_required RefreshRoute = False"

section \<open>A concrete deployment for the examples\<close>

text \<open>
  A stand-in for bcrypt (the hash is the salt, a dollar sign and the password; a password
  whose UTF-8 encoding is over 72 bytes raises, as in bcrypt 5), the state of a freshly started process whose
  database handle has a truth value, and requests with and without a token, whose writes
  the server accepts.
\<close>

definition utf8_len :: "string \<Rightarrow> nat" where
  "utf8_len p = sum_list (map (\<lambda>c. if (of_char c :: nat) < 128 then 1 else 2) p)"

definition bcrypt0 :: bcrypt where
  "bcrypt0 =
     \<lparr>hashpw = (\<lambda>p s. if utf8_len p \<le> 72 then Inr (s @ CHR ''$'' # p) else Inl ValueError),
      checkpw = (\<lambda>p h. if utf8_len p \<le> 72
                        then Inr (dropWhile (\<lambda>c. c \<noteq> CHR ''$'') h = CHR ''$'' # p)
                        else Inl ValueError)\<rparr>"

definition state0 :: state where
  "state0 =
     \<lparr>db = Database True, users = [], roadmaps = [], token_blacklist = {}, oid_count = 0,
      jti_count = 0\<rparr>"

definition anonymous :: "val \<Rightarrow> request" where
  "anonymous b =
     \<lparr>presented = JwtError 401 ''Missing Authorization Header'', json = b, now = 0,
      salt = ''salt'', write_ok = True\<rparr>"

definition bearer :: "claims \<Rightarrow> val \<Rightarrow> request" where
  "bearer c b = \<lparr>presented = JwtOk c, json = b, now = 0, salt = ''salt'', write_ok = True\<rparr>"

definition alice_id :: string where
  "alice_id = ''000000000000000000000000''"

definition bob_id :: string where
  "bob_id = ''000000000000000000000001''"

definition alice_access :: claims where
  "alice_access = \<lparr>sub = alice_id, role = VStr ''user'', jti = 0, ttype = Access\<rparr>"

definition alice_refresh :: claims where
  "alice_refresh = \<lparr>sub = alice_id, role = VStr ''user'', jti = 1, ttype = Refresh\<rparr>"

definition bob_access :: claims where
  "bob_access = \<lparr>sub = bob_id, role = VStr ''user'', jti = 2, ttype = Access\<rparr>"

definition alice_signup :: val where
  "alice_signup =
     VObj [(''username'', VStr ''alice''), (''email'', VStr ''alice@example.org''),
           (''password'', VStr ''Valid1Pass!'')]"

definition mallory_signup :: val where
  "mallory_signup =
     VObj [(''username'', VStr ''mallory''), (''email'', VStr ''mallory@example.org''),
           (''password'', VStr ''Valid1Pass!''), (''role'', VStr ''admin'')]"

definition bob_signup :: val where
  "bob_signup =
     VObj [(''username'', VStr ''bob''), (''email'', VStr ''bob@example.org''),
           (''password'', VStr ''Valid2Pass?'')]"

definition roadmap_json :: val where
  "roadmap_json =
     VObj [(''title'', VStr ''Logic''), (''description'', VStr ''First steps''),
           (''category'', VStr ''math''), (''difficulty_level'', VStr ''easy''),
           (''nodes'', VArr [VObj [(''id'', VNum 1), (''title'', VStr ''Sets''),
                                   (''description'', VStr ''Naive sets''),
                                   (''position_x'', VNum 0), (''position_y'', VNum 0)]])]"

definition roadmap_id :: string where
  "roadmap_id = ''000000000000000000000002''"

text \<open>Alice and Bob sign up, then Alice creates a roadmap, private by default.\<close>

definition setup_requests :: "(route \<times> request) list" where
  "setup_requests =
     [(Signup, anonymous alice_signup), (Signup, anonymous bob_signup),
      (CreateRoadmap, bearer alice_access roadmap_json)]"

text \<open>Requests served after a revocation, for the examples about later times.\<close>

definition later_requests :: "(route \<times> request) list" where
  "later_requests =
     [(Signup, anonymous mallory_signup), (Logout, bearer bob_access VNull),
      (GetRoadmaps, bearer alice_access VNull)]"


text \<open>The state after \<open>setup_requests\<close>.\<close>

definition private_state :: state where
  "private_state =
     \<lparr>db = Database True,
      users =
        [\<lparr>u_id = ''000000000000000000000000'', username = ''alice'',
           email = ''alice@example.org'', password = ''salt$Valid1Pass!'',
           u_role = VStr ''user'', created_at = 0, updated_at = 0\<rparr>,
         \<lparr>u_id = ''000000000000000000000001'', username = ''bob'',
           email = ''bob@example.org'', password = ''salt$Valid2Pass?'',
           u_role = VStr ''user'', created_at = 0, updated_at = 0\<rparr>],
      roadmaps =
        [[(''_id'', VOid ''000000000000000000000002''),
          (''title'', VStr ''Logic''),
          (''description'', VStr ''First steps''),
          (''category'', VStr ''math''),
          (''difficulty_level'', VStr ''easy''),
          (''nodes'',
           VArr [VObj [(''id'', VNum 1), (''title'', VStr ''Sets''),
                       (''description'', VStr ''Naive sets''),
                       (''position_x'', VNum 0), (''position_y'', VNum 0),
                       (''completed'', VBool False)]]),
          (''created_by'', VOid ''000000000000000000000000''),
          (''is_public'', VBool False), (''tags'', VArr []),
          (''created_at'', VTime 0), (''updated_at'', VTime 0)]],
      token_blacklist = {}, oid_count = 3, jti_count = 4\<rparr>"

text \<open>
  The same state after an operator has promoted Alice in the database, and the access token
  that names her an admin.
\<close>

definition promoted_state :: state where
  "promoted_state =
     private_state\<lparr>users :=
        [\<lparr>u_id = ''000000000000000000000000'', username = ''alice'',
           email = ''alice@example.org'', password = ''salt$Valid1Pass!'',
           u_role = VStr ''admin'', created_at = 0, updated_at = 0\<rparr>,
         \<lparr>u_id = ''000000000000000000000001'', username = ''bob'',
           email = ''bob@example.org'', password = ''salt$Valid2Pass?'',
           u_role = VStr ''user'', created_at = 0, updated_at = 0\<rparr>]\<rparr>"

definition alice_admin_access :: claims where
  "alice_admin_access = \<lparr>sub = alice_id, role = VStr ''admin'', jti = 4, ttype = Access\<rparr>"

definition stranger_access :: claims where
  "stranger_access =
     \<lparr>sub = ''000000000000000000000009'', role = VStr ''user'', jti = 9, ttype = Access\<rparr>"

definition stranger_refresh :: claims where
  "stranger_refresh =
     \<lparr>sub = ''000000000000000000000009'', role = VStr ''user'', jti = 10, ttype = Refresh\<rparr>"

text \<open>Alice signs up and logs out with her access token.\<close>

definition logout_requests :: "(route \<times> request) list" where
  "logout_requests =
     [(Signup, anonymous alice_signup), (Logout, bearer alice_access VNull)]"

text \<open>The private state on a database handle that raises on \<^verbatim>\<open>bool(db)\<close>.\<close>

definition handle4_state :: state where
  "handle4_state = private_state\<lparr>db := Database False\<rparr>"

definition login_json :: "string \<Rightarrow> val \<Rightarrow> val" where
  "login_json e p = VObj [(''email'', VStr e), (''password'', p)]"

text \<open>A password of 73 bytes.\<close>

definition long_password :: string where
  "long_password = replicate 73 (CHR ''a'')"

text \<open>The state after \<open>logout_requests\<close>.\<close>

definition logged_out_state :: state where
  "logged_out_state =
     \<lparr>db = Database True,
      users =
        [\<lparr>u_id = ''000000000000000000000000'', username = ''alice'',
           email = ''alice@example.org'', password = ''salt$Valid1Pass!'',
           u_role = VStr ''user'', created_at = 0, updated_at = 0\<rparr>],
      roadmaps = [], token_blacklist = {0}, oid_count = 1, jti_count = 2\<rparr>"

text \<open>Signing up first in a fresh process, Mallory gets the first generated id.\<close>

definition mallory_id :: string where
  "mallory_id = ''000000000000000000000000''"

definition mallory_access :: claims where
  "mallory_access = \<lparr>sub = mallory_id, role = VStr ''admin'', jti = 0, ttype = Access\<rparr>"

section \<open>Password strength\<close>

lemma scan_class_iff: "scan_class cls s \<longleftrightarrow> (\<exists>c \<in> set s. cls c)"
  by (induction s) auto

lemma validate_password_str:
  "validate_password (VStr p) =
     (if length p < 8 then Inr (False, ''Password must be at least 8 characters long'')
      else if \<not> (\<exists>c \<in> set p. cls_upper c)
        then Inr (False, ''Password must contain at least one uppercase letter'')
      else if \<not> (\<exists>c \<in> set p. cls_lower c)
        then Inr (False, ''Password must contain at least one lowercase letter'')
      else if \<not> (\<exists>c \<in> set p. cls_digit c)
        then Inr (False, ''Password must contain at least one digit'')
      else if \<not> (\<exists>c \<in> set p. cls_special c)
        then Inr (False, ''Password must contain at least one special character'')
      else Inr (True, ''Password is valid''))"
  by (simp add: validate_password_def scan_class_iff)

lemma validate_password_examples:
  "validate_password (VStr ''short1!'') =
     Inr (False, ''Password must be at least 8 characters long'')"
  "validate_password (VStr ''alllowercase1!'') =
     Inr (False, ''Password must contain at least one uppercase letter'')"
  "validate_password (VStr ''ALLUPPER1!'') =
     Inr (False, ''Password must contain at least one lowercase letter'')"
  "validate_password (VStr ''NoDigits!'') =
     Inr (False, ''Password must contain at least one digit'')"
  "validate_password (VStr ''NoSymbol1'') =
     Inr (False, ''Password must contain at least one special character'')"
  "validate_password (VStr ''Valid1Pass!'') = Inr (True, ''Password is valid'')"
  by (simp_all add: validate_password_def cls_upper_def cls_lower_def cls_digit_def
        cls_special_def special_chars_def)

text \<open>
  C7. For every password string, \<^verbatim>\<open>validate_password\<close> accepts it exactly when it has
  at least 8 characters and contains an upper-case letter, a lower-case letter, a digit
  and a character of the punctuation set; otherwise it returns \<^verbatim>\<open>False\<close> with the
  message of the first rule that fails, in the order length, upper case, lower case,
  digit, symbol. The six passwords named by the specification fail, respectively pass,
  as it says.
\<close>

theorem validate_password_rules:
  "(validate_password (VStr p) = Inr (True, ''Password is valid'') \<longleftrightarrow>
      8 \<le> length p \<and> (\<exists>c \<in> set p. cls_upper c) \<and> (\<exists>c \<in> set p. cls_lower c)
      \<and> (\<exists>c \<in> set p. cls_digit c) \<and> (\<exists>c \<in> set p. cls_special c))
   \<and> (validate_password (VStr p) \<noteq> Inr (True, ''Password is valid'') \<longrightarrow>
        (\<exists>reason. validate_password (VStr p) = Inr (False, reason)))
   \<and> (length p < 8 \<longrightarrow>
        validate_password (VStr p) =
          Inr (False, ''Password must be at least 8 characters long''))
   \<and> (8 \<le> length p \<and> \<not> (\<exists>c \<in> set p. cls_upper c) \<longrightarrow>
        validate_password (VStr p) =
          Inr (False, ''Password must contain at least one uppercase letter''))
   \<and> (8 \<le> length p \<and> (\<exists>c \<in> set p. cls_upper c) \<and> \<not> (\<exists>c \<in> set p. cls_lower c) \<longrightarrow>
        validate_password (VStr p) =
          Inr (False, ''Password must contain at least one lowercase letter''))
   \<and> (8 \<le> length p \<and> (\<exists>c \<in> set p. cls_upper c) \<and> (\<exists>c \<in> set p. cls_lower c)
        \<and> \<not> (\<exists>c \<in> set p. cls_digit c) \<longrightarrow>
        validate_password (VStr p) =
          Inr (False, ''Password must contain at least one digit''))
   \<and> (8 \<le> length p \<and> (\<exists>c \<in> set p. cls_upper c) \<and> (\<exists>c \<in> set p. cls_lower c)
        \<and> (\<exists>c \<in> set p. cls_digit c) \<and> \<not> (\<exists>c \<in> set p. cls_special c) \<longrightarrow>
        validate_password (VStr p) =
          Inr (False, ''Password must contain at least one special character''))
   \<and> validate_password (VStr ''short1!'') =
        Inr (False, ''Password must be at least 8 characters long'')
   \<and> validate_password (VStr ''alllowercase1!'') =
        Inr (False, ''Password must contain at least one uppercase letter'')
   \<and> validate_password (VStr ''ALLUPPER1!'') =
        Inr (False, ''Password must contain at least one lowercase letter'')
   \<and> validate_password (VStr ''NoDigits!'') =
        Inr (False, ''Password must contain at least one digit'')
   \<and> validate_password (VStr ''NoSymbol1'') =
        Inr (False, ''Password must contain at least one special character'')
   \<and> validate_password (VStr ''Valid1Pass!'') = Inr (True, ''Password is valid'')"
proof -
  have accept: "validate_password (VStr p) = Inr (True, ''Password is valid'') \<longleftrightarrow>
      8 \<le> length p \<and> (\<exists>c \<in> set p. cls_upper c) \<and> (\<exists>c \<in> set p. cls_lower c)
      \<and> (\<exists>c \<in> set p. cls_digit c) \<and> (\<exists>c \<in> set p. cls_special c)"
    by (simp add: validate_password_str)
  have reject: "validate_password (VStr p) \<noteq> Inr (True, ''Password is valid'') \<longrightarrow>
        (\<exists>reason. validate_password (VStr p) = Inr (False, reason))"
    by (simp add: validate_password_str)
  have r1: "length p < 8 \<longrightarrow>
        validate_password (VStr p) =
          Inr (False, ''Password must be at least 8 characters long'')"
    by (simp add: validate_password_str)
  have r2: "8 \<le> length p \<and> \<not> (\<exists>c \<in> set p. cls_upper c) \<longrightarrow>
        validate_password (VStr p) =
          Inr (False, ''Password must contain at least one uppercase letter'')"
    by (simp add: validate_password_str)
  have r3: "8 \<le> length p \<and> (\<exists>c \<in> set p. cls_upper c) \<and> \<not> (\<exists>c \<in> set p. cls_lower c) \<longrightarrow>
        validate_password (VStr p) =
          Inr (False, ''Password must contain at least one lowercase letter'')"
    by (simp add: validate_password_str)
  have r4: "8 \<le> length p \<and> (\<exists>c \<in> set p. cls_upper c) \<and> (\<exists>c \<in> set p. cls_lower c)
        \<and> \<not> (\<exists>c \<in> set p. cls_digit c) \<longrightarrow>
        validate_password (VStr p) =
          Inr (False, ''Password must contain at least one digit'')"
    by (simp add: validate_password_str)
  have r5: "8 \<le> length p \<and> (\<exists>c \<in> set p. cls_upper c) \<and> (\<exists>c \<in> set p. cls_lower c)
        \<and> (\<exists>c \<in> set p. cls_digit c) \<and> \<not> (\<exists>c \<in> set p. cls_special c) \<longrightarrow>
        validate_password (VStr p) =
          Inr (False, ''Password must contain at least one special character'')"
    by (simp add: validate_password_str)
  show ?thesis
    by (intro conjI accept reject r1 r2 r3 r4 r5 validate_password_examples)
qed

theorem validate_password_rules_witness:
  "length ''short1!'' < 8
   \<and> validate_password (VStr ''short1!'') =
        Inr (False, ''Password must be at least 8 characters long'')
   \<and> 8 \<le> length ''alllowercase1!'' \<and> \<not> (\<exists>c \<in> set ''alllowercase1!''. cls_upper c)
   \<and> validate_password (VStr ''alllowercase1!'') =
        Inr (False, ''Password must contain at least one uppercase letter'')
   \<and> 8 \<le> length ''ALLUPPER1!'' \<and> (\<exists>c \<in> set ''ALLUPPER1!''. cls_upper c)
   \<and> \<not> (\<exists>c \<in> set ''ALLUPPER1!''. cls_lower c)
   \<and> validate_password (VStr ''ALLUPPER1!'') =
        Inr (False, ''Password must contain at least one lowercase letter'')
   \<and> 8 \<le> length ''NoDigits!'' \<and> (\<exists>c \<in> set ''NoDigits!''. cls_upper c)
   \<and> (\<exists>c \<in> set ''NoDigits!''. cls_lower c) \<and> \<not> (\<exists>c \<in> set ''NoDigits!''. cls_digit c)
   \<and> validate_password (VStr ''NoDigits!'') =
        Inr (False, ''Password must contain at least one digit'')
   \<and> 8 \<le> length ''NoSymbol1'' \<and> (\<exists>c \<in> set ''NoSymbol1''. cls_upper c)
   \<and> (\<exists>c \<in> set ''NoSymbol1''. cls_lower c) \<and> (\<exists>c \<in> set ''NoSymbol1''. cls_digit c)
   \<and> \<not> (\<exists>c \<in> set ''NoSymbol1''. cls_special c)
   \<and> validate_password (VStr ''NoSymbol1'') =
        Inr (False, ''Password must contain at least one special character'')
   \<and> 8 \<le> length ''Valid1Pass!'' \<and> (\<exists>c \<in> set ''Valid1Pass!''. cls_upper c)
   \<and> (\<exists>c \<in> set ''Valid1Pass!''. cls_lower c) \<and> (\<exists>c \<in> set ''Valid1Pass!''. cls_digit c)
   \<and> (\<exists>c \<in> set ''Valid1Pass!''. cls_special c)
   \<and> validate_password (VStr ''Valid1Pass!'') = Inr (True, ''Password is valid'')"
proof -
  have h1: "length ''short1!'' < 8"
    by simp
  have h2: "8 \<le> length ''alllowercase1!'' \<and> \<not> (\<exists>c \<in> set ''alllowercase1!''. cls_upper c)"
    by (simp add: cls_upper_def)
  have h3: "8 \<le> length ''ALLUPPER1!'' \<and> (\<exists>c \<in> set ''ALLUPPER1!''. cls_upper c)
            \<and> \<not> (\<exists>c \<in> set ''ALLUPPER1!''. cls_lower c)"
    by (simp add: cls_upper_def cls_lower_def)
  have h4: "8 \<le> length ''NoDigits!'' \<and> (\<exists>c \<in> set ''NoDigits!''. cls_upper c)
            \<and> (\<exists>c \<in> set ''NoDigits!''. cls_lower c) \<and> \<not> (\<exists>c \<in> set ''NoDigits!''. cls_digit c)"
    by (simp add: cls_upper_def cls_lower_def cls_digit_def)
  have h5: "8 \<le> length ''NoSymbol1'' \<and> (\<exists>c \<in> set ''NoSymbol1''. cls_upper c)
            \<and> (\<exists>c \<in> set ''NoSymbol1''. cls_lower c) \<and> (\<exists>c \<in> set ''NoSymbol1''. cls_digit c)
            \<and> \<not> (\<exists>c \<in> set ''NoSymbol1''. cls_special c)"
    by (simp add: cls_upper_def cls_lower_def cls_digit_def cls_special_def special_chars_def)
  have h6: "8 \<le> length ''Valid1Pass!'' \<and> (\<exists>c \<in> set ''Valid1Pass!''. cls_upper c)
            \<and> (\<exists>c \<in> set ''Valid1Pass!''. cls_lower c) \<and> (\<exists>c \<in> set ''Valid1Pass!''. cls_digit c)
            \<and> (\<exists>c \<in> set ''Valid1Pass!''. cls_special c)"
    by (simp add: cls_upper_def cls_lower_def cls_digit_def cls_special_def special_chars_def)
  note r = validate_password_rules [THEN conjunct2, THEN conjunct2]
  have c1: "validate_password (VStr ''short1!'') =
              Inr (False, ''Password must be at least 8 characters long'')"
    by (rule r [of "''short1!''", THEN conjunct1, THEN mp, OF h1])
  have c2: "validate_password (VStr ''alllowercase1!'') =
              Inr (False, ''Password must contain at least one uppercase letter'')"
    by (rule r [of "''alllowercase1!''", THEN conjunct2, THEN conjunct1, THEN mp, OF h2])
  have c3: "validate_password (VStr ''ALLUPPER1!'') =
              Inr (False, ''Password must contain at least one lowercase letter'')"
    by (rule r [of "''ALLUPPER1!''", THEN conjunct2, THEN conjunct2, THEN conjunct1,
                THEN mp, OF h3])
  have c4: "validate_password (VStr ''NoDigits!'') =
              Inr (False, ''Password must contain at least one digit'')"
    by (rule r [of "''NoDigits!''", THEN conjunct2, THEN conjunct2, THEN conjunct2,
                THEN conjunct1, THEN mp, OF h4])
  have c5: "validate_password (VStr ''NoSymbol1'') =
              Inr (False, ''Password must contain at least one special character'')"
    by (rule r [of "''NoSymbol1''", THEN conjunct2, THEN conjunct2, THEN conjunct2,
                THEN conjunct2, THEN conjunct1, THEN mp, OF h5])
  have c6: "validate_password (VStr ''Valid1Pass!'') = Inr (True, ''Password is valid'')"
    by (rule validate_password_rules [of "''Valid1Pass!''", THEN conjunct1, THEN iffD2, OF h6])
  show ?thesis
    by (intro conjI h1 c1 c2 c3 c4 c5 c6
          h2 [THEN conjunct1] h2 [THEN conjunct2]
          h3 [THEN conjunct1] h3 [THEN conjunct2, THEN conjunct1]
          h3 [THEN conjunct2, THEN conjunct2]
          h4 [THEN conjunct1] h4 [THEN conjunct2, THEN conjunct1]
          h4 [THEN conjunct2, THEN conjunct2, THEN conjunct1]
          h4 [THEN conjunct2, THEN conjunct2, THEN conjunct2]
          h5 [THEN conjunct1] h5 [THEN conjunct2, THEN conjunct1]
          h5 [THEN conjunct2, THEN conjunct2, THEN conjunct1]
          h5 [THEN conjunct2, THEN conjunct2, THEN conjunct2, THEN conjunct1]
          h5 [THEN conjunct2, THEN conjunct2, THEN conjunct2, THEN conjunct2]
          h6 [THEN conjunct1] h6 [THEN conjunct2, THEN conjunct1]
          h6 [THEN conjunct2, THEN conjunct2, THEN conjunct1]
          h6 [THEN conjunct2, THEN conjunct2, THEN conjunct2, THEN conjunct1]
          h6 [THEN conjunct2, THEN conjunct2, THEN conjunct2, THEN conjunct2])
qed

section \<open>The revocation registry only grows\<close>

text \<open>
  Basic facts about sequencing, then, handler by handler, the effect of each body on
  \<^verbatim>\<open>token_blacklist\<close>: only \<^verbatim>\<open>logout\<close> writes it, and it only adds.
\<close>

lemma then_do_Inl [simp]: "then_do (Inl e) f = Inl e"
  by (simp add: then_do_def)

lemma then_do_Inr [simp]: "then_do (Inr x) f = f x"
  by (simp add: then_do_def)

lemma same_then_do:
  "(\<And>x. m = Inr x \<Longrightarrow> same_blacklist st (f x)) \<Longrightarrow> same_blacklist st (then_do m f)"
  by (cases m) (simp_all add: same_blacklist_def)

lemma same_Inl [simp]: "same_blacklist st (Inl e)"
  by (simp add: same_blacklist_def)

lemma same_fail [simp]: "same_blacklist st (fail s m st)"
  by (simp add: same_blacklist_def fail_def)

lemma same_reply:
  "token_blacklist st' = token_blacklist st \<Longrightarrow> same_blacklist st (reply s b st')"
  by (simp add: same_blacklist_def reply_def)

lemma same_caught:
  "same_blacklist st m \<Longrightarrow> token_blacklist (snd (caught p st m)) = token_blacklist st"
  by (simp add: same_blacklist_def caught_def split: sum.splits prod.splits)

lemma then_do_eq_Inr: "(then_do m f = Inr y) = (\<exists>x. m = Inr x \<and> f x = Inr y)"
  by (cases m) simp_all

lemma update_one_blacklist:
  "update_one rid upd req st = Inr st' \<Longrightarrow> token_blacklist st' = token_blacklist st"
  by (auto simp: update_one_def then_do_eq_Inr split: option.splits if_splits)

lemma delete_one_blacklist: "token_blacklist (snd (delete_one rid st)) = token_blacklist st"
  by (simp add: delete_one_def split: option.splits)

lemma insert_roadmap_blacklist:
  "insert_roadmap d req st = Inr (i, st') \<Longrightarrow> token_blacklist st' = token_blacklist st"
  by (auto simp: insert_roadmap_def then_do_eq_Inr Let_def split: option.splits if_splits)

lemma insert_user_blacklist:
  "insert_user u req st = Inr (i, st') \<Longrightarrow> token_blacklist st' = token_blacklist st"
  by (auto simp: insert_user_def then_do_eq_Inr Let_def)

lemma create_access_token_blacklist:
  "token_blacklist (snd (create_access_token i r st)) = token_blacklist st"
  by (simp add: create_access_token_def)

lemma generate_tokens_blacklist:
  "token_blacklist (snd (generate_tokens i r st)) = token_blacklist st"
  by (simp add: generate_tokens_def create_access_token_def create_refresh_token_def)

lemmas same_intros = same_then_do same_reply

lemma index_bl: "token_blacklist (snd (index_body req st)) = token_blacklist st"
  by (simp add: index_body_def)

lemma health_bl: "token_blacklist (snd (health_check_body req st)) = token_blacklist st"
  by (simp add: health_check_body_def)

lemma get_roadmaps_bl: "token_blacklist (snd (get_roadmaps_body u req st)) = token_blacklist st"
  unfolding get_roadmaps_body_def
  by (rule same_caught) (auto intro!: same_intros)

lemma create_roadmap_bl: "token_blacklist (snd (create_roadmap_body u req st)) = token_blacklist st"
  unfolding create_roadmap_body_def
  by (rule same_caught)
     (auto intro!: same_intros split: option.split val.split list.split prod.split
        dest!: insert_roadmap_blacklist
        simp del: first_missing.simps check_nodes.simps map_exn.simps)

lemma get_roadmap_bl: "token_blacklist (snd (get_roadmap_body r u req st)) = token_blacklist st"
  unfolding get_roadmap_body_def
  by (rule same_caught) (auto intro!: same_intros split: option.split)

lemma update_roadmap_bl: "token_blacklist (snd (update_roadmap_body r u req st)) = token_blacklist st"
  unfolding update_roadmap_body_def
  by (rule same_caught)
     (auto intro!: same_intros split: option.split val.split dest!: update_one_blacklist)

lemma delete_roadmap_bl: "token_blacklist (snd (delete_roadmap_body r u req st)) = token_blacklist st"
  unfolding delete_roadmap_body_def
  by (rule same_caught)
     (auto intro!: same_intros split: option.split simp: delete_one_blacklist)

lemma toggle_bl: "token_blacklist (snd (toggle_node_completion_body r n u req st)) = token_blacklist st"
  unfolding toggle_node_completion_body_def
  by (rule same_caught)
     (auto intro!: same_intros split: option.split dest!: update_one_blacklist)

lemma progress_bl: "token_blacklist (snd (get_roadmap_progress_body r u req st)) = token_blacklist st"
  unfolding get_roadmap_progress_body_def
  by (rule same_caught)
     (auto intro!: same_intros split: option.split simp: Let_def)

lemma admin_roadmaps_bl: "token_blacklist (snd (get_all_roadmaps_admin_body req st)) = token_blacklist st"
  unfolding get_all_roadmaps_admin_body_def
  by (rule same_caught) (auto intro!: same_intros)

lemma force_delete_bl: "token_blacklist (snd (force_delete_roadmap_body r req st)) = token_blacklist st"
  unfolding force_delete_roadmap_body_def
  by (rule same_caught)
     (auto intro!: same_intros split: prod.split simp: delete_one_def split: option.splits)

lemma signup_bl: "token_blacklist (snd (signup_body B req st)) = token_blacklist st"
  unfolding signup_body_def
  by (rule same_caught)
     (auto intro!: same_intros split: option.split prod.split
        dest!: insert_user_blacklist
        simp: Let_def generate_tokens_def create_access_token_def create_refresh_token_def
        simp del: first_missing.simps)

lemma login_bl: "token_blacklist (snd (login_body B req st)) = token_blacklist st"
  unfolding login_body_def
  by (rule same_caught)
     (auto intro!: same_intros split: option.split prod.split
        simp: Let_def generate_tokens_def create_access_token_def
              create_refresh_token_def)

lemma profile_bl: "token_blacklist (snd (get_profile_body u req st)) = token_blacklist st"
  unfolding get_profile_body_def
  by (rule same_caught) (auto intro!: same_intros split: option.split)

lemma refresh_bl: "token_blacklist (snd (refresh_token_body req st)) = token_blacklist st"
  unfolding refresh_token_body_def
  by (rule same_caught)
     (auto intro!: same_intros split: option.split prod.split simp: create_access_token_def)

lemma users_bl: "token_blacklist (snd (get_all_users_body req st)) = token_blacklist st"
  unfolding get_all_users_body_def
  by (rule same_caught) (auto intro!: same_intros)

lemma same_Inr: "same_blacklist st (Inr p) = (token_blacklist (snd p) = token_blacklist st)"
  by (cases p) (simp add: same_blacklist_def)

lemma def0_same:
  "(\<And>req st. token_blacklist (snd (f req st)) = token_blacklist st)
     \<Longrightarrow> same_blacklist st (def0 f args kw req st)"
  unfolding def0_def by (rule same_then_do) (simp add: same_Inr)

lemma def1_same:
  "(\<And>a req st. token_blacklist (snd (f a req st)) = token_blacklist st)
     \<Longrightarrow> same_blacklist st (def1 p1 f args kw req st)"
  unfolding def1_def by (rule same_then_do) (simp add: same_Inr split: option.split)

lemma def2_same:
  "(\<And>a b req st. token_blacklist (snd (f a b req st)) = token_blacklist st)
     \<Longrightarrow> same_blacklist st (def2 p1 p2 f args kw req st)"
  unfolding def2_def by (rule same_then_do) (simp add: same_Inr split: option.split)

lemma def3_same:
  "(\<And>a b c req st. token_blacklist (snd (f a b c req st)) = token_blacklist st)
     \<Longrightarrow> same_blacklist st (def3 p1 p2 p3 f args kw req st)"
  unfolding def3_def by (rule same_then_do) (simp add: same_Inr split: option.split)

lemma jwt_required_same:
  "(\<And>args kw req st. same_blacklist st (f args kw req st))
     \<Longrightarrow> same_blacklist st (jwt_required f args kw req st)"
  by (simp add: jwt_required_def same_reply split: jwt_check.split)

lemma token_required_same:
  "(\<And>args kw req st. same_blacklist st (f args kw req st))
     \<Longrightarrow> same_blacklist st (token_required f args kw req st)"
  unfolding token_required_def
  by (rule jwt_required_same) (auto intro!: same_then_do)

lemma admin_required_same:
  "(\<And>args kw req st. same_blacklist st (f args kw req st))
     \<Longrightarrow> same_blacklist st (admin_required f args kw req st)"
  unfolding admin_required_def
  by (rule jwt_required_same) (auto intro!: same_then_do)

lemma flask_call_same:
  "same_blacklist st (view [] kw req st)
     \<Longrightarrow> token_blacklist (snd (flask_call view kw req st)) = token_blacklist st"
  by (simp add: flask_call_def same_blacklist_def split: sum.splits prod.splits)

lemma bind_args_none [simp]: "bind_args ps [] [] = (if ps = [] then Inr [] else Inl TypeError)"
  by (cases ps) (simp_all add: bind_args_def)

lemma logout_call:
  "flask_call logout [] req st =
     (case jwt req of
        JwtError s m \<Rightarrow> (Response s (VObj [(''msg'', VStr m)]), st)
      | JwtOk c \<Rightarrow>
          (Response 200 (VObj [(''message'', VStr ''Successfully logged out'')]),
           revoke_token (jti c) st))"
  by (simp add: flask_call_def logout_def jwt_required_def def0_def logout_body_def
        get_jwt_def caught_def reply_def split: jwt_check.split)

lemma dispatch_blacklist:
  "token_blacklist (snd (dispatch B r req st)) =
     (case (r, jwt req) of
        (Logout, JwtOk c) \<Rightarrow> insert (jti c) (token_blacklist st)
      | _ \<Rightarrow> token_blacklist st)"
proof (cases r)
  case Logout
  then show ?thesis
    by (simp add: logout_call revoke_token_def split: jwt_check.split)
qed (simp_all add: flask_call_same token_required_same admin_required_same jwt_required_same
       def0_same def1_same def2_same def3_same
       index_def health_check_def get_roadmaps_def create_roadmap_def get_roadmap_def
       update_roadmap_def delete_roadmap_def toggle_node_completion_def
       get_roadmap_progress_def get_all_roadmaps_admin_def force_delete_roadmap_def
       signup_def login_def get_profile_def refresh_token_def get_all_users_def
       index_bl health_bl get_roadmaps_bl create_roadmap_bl get_roadmap_bl update_roadmap_bl
       delete_roadmap_bl toggle_bl progress_bl admin_roadmaps_bl force_delete_bl signup_bl
       login_bl profile_bl refresh_bl users_bl)

lemma dispatch_blacklist_mono:
  "token_blacklist st \<subseteq> token_blacklist (snd (dispatch B r req st))"
  by (auto simp: dispatch_blacklist split: route.split jwt_check.split)

lemma serve_blacklist_mono: "token_blacklist st \<subseteq> token_blacklist (serve B reqs st)"
proof (induction reqs arbitrary: st)
  case Nil
  show ?case by simp
next
  case (Cons a reqs)
  obtain r req where a: "a = (r, req)" by (cases a)
  have "token_blacklist st \<subseteq> token_blacklist (snd (dispatch B r req st))"
    by (rule dispatch_blacklist_mono)
  also have "\<dots> \<subseteq> token_blacklist (serve B reqs (snd (dispatch B r req st)))"
    by (rule Cons.IH)
  finally show ?case by (simp add: a)
qed

lemma token_required_revoked:
  "jwt req = JwtOk c \<Longrightarrow> jti c \<in> token_blacklist st
     \<Longrightarrow> token_required f args kw req st =
           Inr (Response 401 (error_json ''Token has been revoked''), st)"
  by (simp add: token_required_def jwt_required_def get_jwt_def get_jwt_identity_def
        is_token_revoked_def fail_def)

lemma admin_required_revoked:
  "jwt req = JwtOk c \<Longrightarrow> jti c \<in> token_blacklist st
     \<Longrightarrow> admin_required f args kw req st =
           Inr (Response 401 (error_json ''Token has been revoked''), st)"
  by (simp add: admin_required_def jwt_required_def get_jwt_def
        is_token_revoked_def fail_def)

lemma dispatch_revoked:
  "jwt req = JwtOk c \<Longrightarrow> jti c \<in> token_blacklist st
     \<Longrightarrow> under_token_required r \<or> under_admin_required r
     \<Longrightarrow> dispatch B r req st = (Response 401 (error_json ''Token has been revoked''), st)"
  by (cases r)
     (simp_all add: flask_call_def token_required_revoked admin_required_revoked
        get_roadmaps_def create_roadmap_def get_roadmap_def
        update_roadmap_def delete_roadmap_def toggle_node_completion_def
        get_roadmap_progress_def get_all_roadmaps_admin_def force_delete_roadmap_def
        get_profile_def get_all_users_def)


lemma revoke_token_idem: "revoke_token j (revoke_token j st) = revoke_token j st"
  by (simp add: revoke_token_def)

lemma serve_keeps_revoked: "j \<in> token_blacklist st \<Longrightarrow> j \<in> token_blacklist (serve B reqs st)"
  using serve_blacklist_mono [of st B reqs] by (rule subsetD)

lemma logout_state:
  "jwt req = JwtOk c \<Longrightarrow> snd (dispatch B Logout req st) = revoke_token (jti c) st"
  by (simp add: logout_call)

text \<open>
  C10. \<^verbatim>\<open>revoke_token\<close> is idempotent and the registry is monotone: revoking a
  \<^verbatim>\<open>jti\<close> twice gives the state of revoking it once; after the revocation
  \<^verbatim>\<open>is_token_revoked\<close> holds for a payload with that \<^verbatim>\<open>jti\<close>; no request to any route
  removes an entry, so the payload stays revoked after every sequence of requests. The
  \<^verbatim>\<open>logout\<close> route is such a revocation of the \<^verbatim>\<open>jti\<close> of the presented token, and
  logging out twice is logging out once.
\<close>

theorem revoke_idempotent_monotone:
  "revoke_token j (revoke_token j st) = revoke_token j st
   \<and> is_token_revoked c (revoke_token (jti c) st)
   \<and> token_blacklist st \<subseteq> token_blacklist (snd (dispatch B r req st))
   \<and> token_blacklist st \<subseteq> token_blacklist (serve B reqs st)
   \<and> is_token_revoked c (serve B reqs (revoke_token (jti c) st))
   \<and> (jwt req = JwtOk c \<longrightarrow>
        snd (dispatch B Logout req st) = revoke_token (jti c) st
        \<and> snd (dispatch B Logout req (snd (dispatch B Logout req st))) =
            snd (dispatch B Logout req st)
        \<and> is_token_revoked c (serve B reqs (snd (dispatch B Logout req st))))"
proof -
  have a: "is_token_revoked c (revoke_token (jti c) st)"
    by (simp add: is_token_revoked_def revoke_token_def)
  have b: "is_token_revoked c (serve B reqs (revoke_token (jti c) st))"
    unfolding is_token_revoked_def
    by (rule serve_keeps_revoked) (simp add: revoke_token_def)
  have c: "jwt req = JwtOk c \<longrightarrow>
        snd (dispatch B Logout req st) = revoke_token (jti c) st
        \<and> snd (dispatch B Logout req (snd (dispatch B Logout req st))) =
            snd (dispatch B Logout req st)
        \<and> is_token_revoked c (serve B reqs (snd (dispatch B Logout req st)))"
  proof (rule impI)
    assume ok: "jwt req = JwtOk c"
    have s1: "snd (dispatch B Logout req st) = revoke_token (jti c) st"
      by (rule logout_state [OF ok])
    have s2: "snd (dispatch B Logout req (revoke_token (jti c) st)) =
                revoke_token (jti c) (revoke_token (jti c) st)"
      by (rule logout_state [OF ok])
    show "snd (dispatch B Logout req st) = revoke_token (jti c) st
        \<and> snd (dispatch B Logout req (snd (dispatch B Logout req st))) =
            snd (dispatch B Logout req st)
        \<and> is_token_revoked c (serve B reqs (snd (dispatch B Logout req st)))"
      unfolding s1 by (intro conjI refl b) (simp only: s2 revoke_token_idem)
  qed
  show ?thesis
    by (intro conjI revoke_token_idem a b c dispatch_blacklist_mono serve_blacklist_mono)
qed

text \<open>Alice logs out; three more requests are served; her token is still revoked.\<close>

theorem revoke_idempotent_monotone_witness:
  "jwt (bearer alice_access VNull) = JwtOk alice_access
   \<and> snd (dispatch bcrypt0 Logout (bearer alice_access VNull) state0) =
       revoke_token (jti alice_access) state0
   \<and> snd (dispatch bcrypt0 Logout (bearer alice_access VNull)
            (snd (dispatch bcrypt0 Logout (bearer alice_access VNull) state0))) =
       snd (dispatch bcrypt0 Logout (bearer alice_access VNull) state0)
   \<and> is_token_revoked alice_access
        (serve bcrypt0 later_requests
           (snd (dispatch bcrypt0 Logout (bearer alice_access VNull) state0)))"
proof -
  have h: "jwt (bearer alice_access VNull) = JwtOk alice_access"
    by (simp add: jwt_def bearer_def alice_access_def)
  note t = revoke_idempotent_monotone
    [of _ _ alice_access bcrypt0 _ "bearer alice_access VNull" later_requests,
     THEN conjunct2, THEN conjunct2, THEN conjunct2, THEN conjunct2, THEN conjunct2,
     THEN mp, OF h]
  show ?thesis
    by (intro conjI h t [THEN conjunct1] t [THEN conjunct2, THEN conjunct1]
          t [THEN conjunct2, THEN conjunct2])
qed

lemma jwt_required_ok:
  "jwt req = JwtOk c \<Longrightarrow> jwt_required f args kw req st = f args kw req st"
  by (simp add: jwt_required_def)

text \<open>
  C4. Once a \<^verbatim>\<open>jti\<close> has been revoked, then after any further sequence of requests a
  request that presents a token with that \<^verbatim>\<open>jti\<close> to a function under
  \<^verbatim>\<open>token_required\<close> or \<^verbatim>\<open>admin_required\<close> is answered 401 "Token has been revoked"
  with the state unchanged, whatever the wrapped function is (it is not called), and so is
  every route under one of the two decorators; the token check of the extension alone
  still accepts the token.
\<close>

theorem revoked_token_rejected_forever:
  "jwt req = JwtOk c \<Longrightarrow>
     get_jwt req = Inr c
     \<and> jwt_required f args kw req (serve B reqs (revoke_token (jti c) st)) =
         f args kw req (serve B reqs (revoke_token (jti c) st))
     \<and> token_required f args kw req (serve B reqs (revoke_token (jti c) st)) =
         Inr (Response 401 (error_json ''Token has been revoked''),
              serve B reqs (revoke_token (jti c) st))
     \<and> admin_required f args kw req (serve B reqs (revoke_token (jti c) st)) =
         Inr (Response 401 (error_json ''Token has been revoked''),
              serve B reqs (revoke_token (jti c) st))
     \<and> (under_token_required r \<or> under_admin_required r \<longrightarrow>
          dispatch B r req (serve B reqs (revoke_token (jti c) st)) =
            (Response 401 (error_json ''Token has been revoked''),
             serve B reqs (revoke_token (jti c) st)))"
proof -
  assume ok: "jwt req = JwtOk c"
  have rev: "jti c \<in> token_blacklist (serve B reqs (revoke_token (jti c) st))"
    by (rule serve_keeps_revoked) (simp add: revoke_token_def)
  have d: "get_jwt req = Inr c"
    using ok by (simp add: get_jwt_def)
  have e: "under_token_required r \<or> under_admin_required r \<longrightarrow>
          dispatch B r req (serve B reqs (revoke_token (jti c) st)) =
            (Response 401 (error_json ''Token has been revoked''),
             serve B reqs (revoke_token (jti c) st))"
    using dispatch_revoked [OF ok rev] by blast
  show ?thesis
    by (intro conjI d e jwt_required_ok [OF ok] token_required_revoked [OF ok rev]
          admin_required_revoked [OF ok rev])
qed

text \<open>Alice's revoked access token at the profile route, three requests later.\<close>

theorem revoked_token_rejected_forever_witness:
  "jwt (bearer alice_access VNull) = JwtOk alice_access
   \<and> under_token_required Profile
   \<and> dispatch bcrypt0 Profile (bearer alice_access VNull)
        (serve bcrypt0 later_requests (revoke_token (jti alice_access) state0)) =
       (Response 401 (error_json ''Token has been revoked''),
        serve bcrypt0 later_requests (revoke_token (jti alice_access) state0))
   \<and> token_required get_roadmaps [] [] (bearer alice_access VNull)
        (serve bcrypt0 later_requests (revoke_token (jti alice_access) state0)) =
       Inr (Response 401 (error_json ''Token has been revoked''),
            serve bcrypt0 later_requests (revoke_token (jti alice_access) state0))"
proof -
  have h: "jwt (bearer alice_access VNull) = JwtOk alice_access"
    by (simp add: jwt_def bearer_def alice_access_def)
  have p: "under_token_required Profile"
    by simp
  note t = revoked_token_rejected_forever [OF h, of _ _ _ bcrypt0 later_requests state0]
  have q: "under_token_required Profile \<or> under_admin_required Profile"
    using p by simp
  show ?thesis
    by (intro conjI h p
          t [THEN conjunct2, THEN conjunct2, THEN conjunct2, THEN conjunct2, THEN mp, OF q]
          t [THEN conjunct2, THEN conjunct2, THEN conjunct1])
qed

lemma def1_kw:
  "def1 p f [] [(p, a)] req st = Inr (f a req st)"
  by (simp add: def1_def bind_args_def)

lemma def0_call: "def0 f [] [] req st = Inr (f req st)"
  by (simp add: def0_def)

lemma admin_required_cases:
  "jwt req = JwtOk c \<Longrightarrow> jti c \<notin> token_blacklist st \<Longrightarrow>
     admin_required f args kw req st =
       (if role c = VStr ''admin'' then f args kw req st
        else Inr (Response 403 (error_json ''Admin access required''), st))"
  by (simp add: admin_required_def jwt_required_def get_jwt_def is_token_revoked_def fail_def)

text \<open>
  C9. For a request with an accepted, unrevoked token, a function under
  \<^verbatim>\<open>admin_required\<close> is called exactly when the role claim of the token is
  \<^verbatim>\<open>'admin'\<close>; otherwise the answer is 403 "Admin access required", the state is
  unchanged and the function is not called. So it is for the three admin routes (roadmap
  listing, force delete, user listing), in every state, hence whoever owns the roadmap.
\<close>

theorem admin_routes_iff_admin_role:
  "jwt req = JwtOk c \<Longrightarrow> jti c \<notin> token_blacklist st \<Longrightarrow>
     admin_required f args kw req st =
       (if role c = VStr ''admin'' then f args kw req st
        else Inr (Response 403 (error_json ''Admin access required''), st))
     \<and> dispatch B AdminRoadmaps req st =
         (if role c = VStr ''admin'' then get_all_roadmaps_admin_body req st
          else (Response 403 (error_json ''Admin access required''), st))
     \<and> dispatch B (ForceDelete rid) req st =
         (if role c = VStr ''admin'' then force_delete_roadmap_body rid req st
          else (Response 403 (error_json ''Admin access required''), st))
     \<and> dispatch B AdminUsers req st =
         (if role c = VStr ''admin'' then get_all_users_body req st
          else (Response 403 (error_json ''Admin access required''), st))"
  by (simp add: admin_required_cases flask_call_def get_all_roadmaps_admin_def
        force_delete_roadmap_def get_all_users_def def0_call def1_kw)

text \<open>
  Alice owns the roadmap and is no admin: her force delete is answered 403 and the roadmap
  stays. With an admin token the same request deletes it.
\<close>

theorem admin_routes_iff_admin_role_witness:
  "jwt (bearer alice_access VNull) = JwtOk alice_access
   \<and> jti alice_access \<notin> token_blacklist private_state
   \<and> role alice_access \<noteq> VStr ''admin''
   \<and> dispatch bcrypt0 (ForceDelete roadmap_id) (bearer alice_access VNull) private_state =
       (Response 403 (error_json ''Admin access required''), private_state)
   \<and> jwt (bearer alice_admin_access VNull) = JwtOk alice_admin_access
   \<and> jti alice_admin_access \<notin> token_blacklist private_state
   \<and> role alice_admin_access = VStr ''admin''
   \<and> dispatch bcrypt0 (ForceDelete roadmap_id) (bearer alice_admin_access VNull)
         private_state =
       (Response 200 (VObj [(''message'', VStr ''Roadmap force deleted successfully by admin'')]),
        private_state\<lparr>roadmaps := []\<rparr>)"
proof -
  have h1: "jwt (bearer alice_access VNull) = JwtOk alice_access"
    by (simp add: jwt_def bearer_def alice_access_def)
  have h2: "jti alice_access \<notin> token_blacklist private_state"
    by (simp add: private_state_def)
  have h3: "role alice_access \<noteq> VStr ''admin''"
    by (simp add: alice_access_def)
  have g1: "jwt (bearer alice_admin_access VNull) = JwtOk alice_admin_access"
    by (simp add: jwt_def bearer_def alice_admin_access_def)
  have g2: "jti alice_admin_access \<notin> token_blacklist private_state"
    by (simp add: private_state_def)
  have g3: "role alice_admin_access = VStr ''admin''"
    by (simp add: alice_admin_access_def)
  have body: "force_delete_roadmap_body roadmap_id (bearer alice_admin_access VNull)
                private_state =
      (Response 200 (VObj [(''message'', VStr ''Roadmap force deleted successfully by admin'')]),
       private_state\<lparr>roadmaps := []\<rparr>)"
    by code_simp
  note t1 = admin_routes_iff_admin_role [OF h1 h2, of _ _ _ bcrypt0 roadmap_id,
    THEN conjunct2, THEN conjunct2, THEN conjunct1]
  note t2 = admin_routes_iff_admin_role [OF g1 g2, of _ _ _ bcrypt0 roadmap_id,
    THEN conjunct2, THEN conjunct2, THEN conjunct1]
  have c1: "dispatch bcrypt0 (ForceDelete roadmap_id) (bearer alice_access VNull)
              private_state =
      (Response 403 (error_json ''Admin access required''), private_state)"
    using h3 by (simp only: t1 if_False simp_thms)
  have c2: "dispatch bcrypt0 (ForceDelete roadmap_id) (bearer alice_admin_access VNull)
              private_state =
      (Response 200 (VObj [(''message'', VStr ''Roadmap force deleted successfully by admin'')]),
       private_state\<lparr>roadmaps := []\<rparr>)"
    by (simp only: t2 g3 if_True body simp_thms)
  show ?thesis
    by (intro conjI h1 h2 h3 c1 g1 g2 g3 c2)
qed
section \<open>What the routes answer\<close>

text \<open>
  Supporting facts: the successful path of \<^verbatim>\<open>signup\<close>, the outcomes of
  \<^verbatim>\<open>refresh_token\<close> for a token that \<^verbatim>\<open>@jwt_required()\<close> accepts or rejects, the
  three outcomes of \<^verbatim>\<open>login\<close> for a stored or unknown email, and the call that Flask
  makes for a route with a \<^verbatim>\<open><roadmap_id>\<close> variable under \<^verbatim>\<open>token_required\<close>. The
  database handle is one whose truth value is defined.
\<close>

lemma key_present: "map_of kvs k = Some v \<Longrightarrow> k \<in> fst ` set kvs"
  by (rule map_of_SomeD [THEN imageI, of kvs k v fst, simplified])

lemma flask_call_def0: "flask_call (def0 f) [] req st = f req st"
  by (simp add: flask_call_def def0_call)

lemma signup_success:
  assumes db: "db st = Database True"
    and js: "json req = VObj kvs"
    and un: "map_of kvs ''username'' = Some (VStr un)"
    and em: "map_of kvs ''email'' = Some (VStr em)"
    and pw: "map_of kvs ''password'' = Some (VStr pw)"
    and l1: "3 \<le> length (strip un)"
    and l2: "5 \<le> length (lower (strip em))"
    and at: "CHR ''@'' \<in> set (lower (strip em))"
    and vp: "validate_password (VStr pw) = Inr (True, msg)"
    and nu: "find (\<lambda>u. username u = strip un \<or> email u = lower (strip em)) (users st) = None"
    and hp: "hashpw B pw (salt req) = Inr h"
    and enc: "bson_check (case map_of kvs ''role'' of None \<Rightarrow> VStr ''user'' | Some r \<Rightarrow> r) = None"
    and wr: "write_ok req"
  shows "signup_body B req st =
       (Response 201
          (VObj [(''message'', VStr ''User created successfully''),
                 (''user'', VObj [(''id'', VStr (new_oid (oid_count st))),
                                  (''username'', VStr (strip un)),
                                  (''email'', VStr (lower (strip em))),
                                  (''role'', case map_of kvs ''role'' of
                                               None \<Rightarrow> VStr ''user'' | Some r \<Rightarrow> r)]),
                 (''access_token'',
                    encode_token \<lparr>sub = new_oid (oid_count st),
                                  role = (case map_of kvs ''role'' of
                                            None \<Rightarrow> VStr ''user'' | Some r \<Rightarrow> r),
                                  jti = jti_count st, ttype = Access\<rparr>),
                 (''refresh_token'',
                    encode_token \<lparr>sub = new_oid (oid_count st),
                                  role = (case map_of kvs ''role'' of
                                            None \<Rightarrow> VStr ''user'' | Some r \<Rightarrow> r),
                                  jti = Suc (jti_count st), ttype = Refresh\<rparr>)]),
        st\<lparr>users := users st @
                  [\<lparr>u_id = new_oid (oid_count st), username = strip un,
                    email = lower (strip em), password = h,
                    u_role = (case map_of kvs ''role'' of
                                None \<Rightarrow> VStr ''user'' | Some r \<Rightarrow> r),
                    created_at = now req, updated_at = now req\<rparr>],
            oid_count := Suc (oid_count st),
            jti_count := Suc (Suc (jti_count st))\<rparr>)"
proof -
  have ne: "kvs \<noteq> []"
    using un by auto
  have k1: "''username'' \<in> fst ` set kvs" and k2: "''email'' \<in> fst ` set kvs"
    and k3: "''password'' \<in> fst ` set kvs"
    using un em pw by (auto dest: key_present)
  show ?thesis
    unfolding signup_body_def
    using db ne k1 k2 k3 l1 l2 at wr enc
    by (cases "map_of kvs ''role''")
       (simp_all add: js un em pw vp nu hp caught_def not_db_def reply_def hash_password_def
          insert_user_def sent_def generate_tokens_def create_access_token_def
          create_refresh_token_def Let_def)
qed

lemma refresh_found:
  "db st = Database True \<Longrightarrow> jwt req = JwtOk c \<Longrightarrow> ObjectId (sub c) = Inr uid
     \<Longrightarrow> find (\<lambda>u. u_id u = uid) (users st) = Some u
     \<Longrightarrow> dispatch B RefreshRoute req st =
           (Response 200
              (VObj [(''access_token'',
                        encode_token \<lparr>sub = sub c, role = u_role u, jti = jti_count st,
                                      ttype = Access\<rparr>),
                     (''message'', VStr ''Token refreshed successfully'')]),
            st\<lparr>jti_count := Suc (jti_count st)\<rparr>)"
  by (simp add: flask_call_def refresh_token_def jwt_required_def def0_call
        refresh_token_body_def get_jwt_def get_jwt_identity_def caught_def not_db_def reply_def
        create_access_token_def)

lemma refresh_not_found:
  "db st = Database True \<Longrightarrow> jwt req = JwtOk c \<Longrightarrow> ObjectId (sub c) = Inr uid
     \<Longrightarrow> find (\<lambda>u. u_id u = uid) (users st) = None
     \<Longrightarrow> dispatch B RefreshRoute req st = (Response 404 (error_json ''User not found''), st)"
  by (simp add: flask_call_def refresh_token_def jwt_required_def def0_call
        refresh_token_body_def get_jwt_def get_jwt_identity_def caught_def not_db_def fail_def)

lemma login_unknown_email:
  "db st = Database True \<Longrightarrow> json req = VObj kvs \<Longrightarrow> map_of kvs ''email'' = Some (VStr em)
     \<Longrightarrow> map_of kvs ''password'' = Some pw
     \<Longrightarrow> find (\<lambda>u. email u = lower (strip em)) (users st) = None
     \<Longrightarrow> dispatch B Login req st = (Response 401 (error_json ''Invalid email or password''), st)"
proof -
  assume db: "db st = Database True" and js: "json req = VObj kvs"
    and em: "map_of kvs ''email'' = Some (VStr em)" and pw: "map_of kvs ''password'' = Some pw"
    and nf: "find (\<lambda>u. email u = lower (strip em)) (users st) = None"
  have ne: "kvs \<noteq> []"
    using em by auto
  have k: "''email'' \<in> fst ` set kvs" "''password'' \<in> fst ` set kvs"
    using em pw by (auto dest: key_present)
  show ?thesis
    using db ne k
    by (simp add: flask_call_def0 login_def login_body_def js em pw nf caught_def not_db_def fail_def)
qed

lemma login_wrong_password:
  "db st = Database True \<Longrightarrow> json req = VObj kvs \<Longrightarrow> map_of kvs ''email'' = Some (VStr em)
     \<Longrightarrow> map_of kvs ''password'' = Some pw
     \<Longrightarrow> find (\<lambda>u. email u = lower (strip em)) (users st) = Some u
     \<Longrightarrow> check_password B pw (password u) = Inr False
     \<Longrightarrow> dispatch B Login req st = (Response 401 (error_json ''Invalid email or password''), st)"
proof -
  assume db: "db st = Database True" and js: "json req = VObj kvs"
    and em: "map_of kvs ''email'' = Some (VStr em)" and pw: "map_of kvs ''password'' = Some pw"
    and fd: "find (\<lambda>u. email u = lower (strip em)) (users st) = Some u"
    and cp: "check_password B pw (password u) = Inr False"
  have ne: "kvs \<noteq> []"
    using em by auto
  have k: "''email'' \<in> fst ` set kvs" "''password'' \<in> fst ` set kvs"
    using em pw by (auto dest: key_present)
  show ?thesis
    using db ne k
    by (simp add: flask_call_def0 login_def login_body_def js em pw fd cp caught_def not_db_def fail_def)
qed

lemma login_password_raises:
  "db st = Database True \<Longrightarrow> json req = VObj kvs \<Longrightarrow> map_of kvs ''email'' = Some (VStr em)
     \<Longrightarrow> map_of kvs ''password'' = Some pw
     \<Longrightarrow> find (\<lambda>u. email u = lower (strip em)) (users st) = Some u
     \<Longrightarrow> check_password B pw (password u) = Inl e
     \<Longrightarrow> dispatch B Login req st =
           (Response 500 (error_json (''Login failed: '' @ exn_text e)), st)"
proof -
  assume db: "db st = Database True" and js: "json req = VObj kvs"
    and em: "map_of kvs ''email'' = Some (VStr em)" and pw: "map_of kvs ''password'' = Some pw"
    and fd: "find (\<lambda>u. email u = lower (strip em)) (users st) = Some u"
    and cp: "check_password B pw (password u) = Inl e"
  have ne: "kvs \<noteq> []"
    using em by auto
  have k: "''email'' \<in> fst ` set kvs" "''password'' \<in> fst ` set kvs"
    using em pw by (auto dest: key_present)
  show ?thesis
    using db ne k
    by (simp add: flask_call_def0 login_def login_body_def js em pw fd cp caught_def not_db_def)
qed

text \<open>
  What \<^verbatim>\<open>@jwt_required()\<close> does with a refresh token, at \<^verbatim>\<open>refresh_token\<close> and under
  the other decorators, which all begin with it.
\<close>

lemma refresh_token_refused:
  "presented req = JwtOk c \<Longrightarrow> ttype c = Refresh
     \<Longrightarrow> jwt req = JwtError 422 ''Only non-refresh tokens are allowed''"
  by (simp add: jwt_def)

lemma jwt_required_rejects:
  "jwt req = JwtError s m
     \<Longrightarrow> jwt_required f args kw req st = Inr (Response s (VObj [(''msg'', VStr m)]), st)"
  by (simp add: jwt_required_def reply_def)

lemma refresh_route_rejects:
  "jwt req = JwtError s m
     \<Longrightarrow> dispatch B RefreshRoute req st = (Response s (VObj [(''msg'', VStr m)]), st)"
  by (simp add: flask_call_def refresh_token_def jwt_required_rejects)

lemma protected_routes_reject:
  "jwt req = JwtError s m \<Longrightarrow> under_token_required r \<or> under_admin_required r
     \<Longrightarrow> dispatch B r req st = (Response s (VObj [(''msg'', VStr m)]), st)"
  by (cases r)
     (simp_all add: flask_call_def token_required_def admin_required_def jwt_required_rejects
        get_roadmaps_def create_roadmap_def get_roadmap_def
        update_roadmap_def delete_roadmap_def toggle_node_completion_def
        get_roadmap_progress_def get_all_roadmaps_admin_def force_delete_roadmap_def
        get_profile_def get_all_users_def)

lemma refresh_issues_to_access_only:
  assumes "jti_count (snd (dispatch B RefreshRoute req st)) \<noteq> jti_count st"
  shows "\<exists>c. presented req = JwtOk c \<and> ttype c = Access"
proof (cases "presented req")
  case (JwtError s m)
  then have "jwt req = JwtError s m"
    by (simp add: jwt_def)
  then have "snd (dispatch B RefreshRoute req st) = st"
    by (simp only: refresh_route_rejects snd_conv)
  with assms show ?thesis by simp
next
  case (JwtOk c)
  show ?thesis
  proof (cases "ttype c")
    case Access
    with JwtOk show ?thesis by simp
  next
    case Refresh
    have "snd (dispatch B RefreshRoute req st) = st"
      by (simp only: refresh_route_rejects [OF refresh_token_refused [OF JwtOk Refresh]] snd_conv)
    with assms show ?thesis by simp
  qed
qed

lemma def2_conflict:
  "def2 p1 p2 f [a] [(p1, b)] req st = Inl TypeError"
  by (simp add: def2_def bind_args_def)

lemma def3_conflict:
  "def3 p1 p2 p3 f [a] ((p1, b) # kw) req st = Inl TypeError"
  by (simp add: def3_def bind_args_def)

lemma token_required_call:
  "jwt req = JwtOk c \<Longrightarrow> jti c \<notin> token_blacklist st
     \<Longrightarrow> token_required f args kw req st = f (sub c # args) kw req st"
  by (simp add: token_required_def jwt_required_def get_jwt_def get_jwt_identity_def
        is_token_revoked_def)

lemma roadmap_id_routes_raise:
  assumes "jwt req = JwtOk c" and "jti c \<notin> token_blacklist st"
  shows "dispatch B (GetRoadmap rid) req st = (internal_error, st)"
    and "dispatch B (UpdateRoadmap rid) req st = (internal_error, st)"
    and "dispatch B (DeleteRoadmap rid) req st = (internal_error, st)"
    and "dispatch B (ToggleNode rid nid) req st = (internal_error, st)"
    and "dispatch B (GetProgress rid) req st = (internal_error, st)"
  using assms
  by (simp_all add: flask_call_def token_required_call def2_conflict def3_conflict
        get_roadmap_def update_roadmap_def delete_roadmap_def toggle_node_completion_def
        get_roadmap_progress_def)


text \<open>
  Conversely, whenever \<^verbatim>\<open>signup\<close> answers 201 the body was a dict, exactly one user was
  added, and its role is the value of \<^verbatim>\<open>data.get('role', 'user')\<close>.
\<close>

lemma signup_created:
  assumes "signup_body B req st = (Response 201 b, st')"
  shows "\<exists>kvs u. json req = VObj kvs \<and> users st' = users st @ [u]
           \<and> u_role u = (case map_of kvs ''role'' of None \<Rightarrow> VStr ''user'' | Some v \<Rightarrow> v)"
proof -
  obtain kvs where js: "json req = VObj kvs"
    using assms
    by (cases "json req")
       (auto simp: signup_body_def caught_def not_db_def fail_def then_do_def
          split: if_splits sum.splits option.splits)
  show ?thesis
    using assms unfolding signup_body_def js
    by (auto simp: caught_def not_db_def fail_def reply_def then_do_def hash_password_def
          insert_user_def sent_def generate_tokens_def create_access_token_def
          create_refresh_token_def Let_def
          simp del: first_missing.simps
          split: if_splits sum.splits option.splits prod.splits val.splits)
qed
section \<open>Signup and refresh\<close>

text \<open>
  C2. A signup that passes the validations of the handler, on a database handle whose truth
  value is defined, with a password that bcrypt hashes and a role that the driver encodes
  and the server accepts (every string is such a role), stores the user with the role that
  the body supplies, whatever value it is, and with \<^verbatim>\<open>'user'\<close> when the body has no
  \<^verbatim>\<open>role\<close>; both issued tokens carry that role. Nothing is required of the token that
  the request presents: the route is not under \<^verbatim>\<open>jwt_required\<close>. And in every
  environment, every signup that is answered 201 has added one user, with that role.
\<close>

theorem signup_stores_supplied_role:
  assumes "db st = Database True"
    and "json req = VObj kvs"
    and "map_of kvs ''username'' = Some (VStr un)"
    and "map_of kvs ''email'' = Some (VStr em)"
    and "map_of kvs ''password'' = Some (VStr pw)"
    and "3 \<le> length (strip un)"
    and "5 \<le> length (lower (strip em))"
    and "CHR ''@'' \<in> set (lower (strip em))"
    and "validate_password (VStr pw) = Inr (True, msg)"
    and "find (\<lambda>u. username u = strip un \<or> email u = lower (strip em)) (users st) = None"
    and "hashpw B pw (salt req) = Inr h"
    and "r = (case map_of kvs ''role'' of None \<Rightarrow> VStr ''user'' | Some v \<Rightarrow> v)"
    and "bson_check r = None"
    and "write_ok req"
  shows "dispatch B Signup req st =
       (Response 201
          (VObj [(''message'', VStr ''User created successfully''),
                 (''user'', VObj [(''id'', VStr (new_oid (oid_count st))),
                                  (''username'', VStr (strip un)),
                                  (''email'', VStr (lower (strip em))),
                                  (''role'', r)]),
                 (''access_token'',
                    encode_token \<lparr>sub = new_oid (oid_count st), role = r,
                                  jti = jti_count st, ttype = Access\<rparr>),
                 (''refresh_token'',
                    encode_token \<lparr>sub = new_oid (oid_count st), role = r,
                                  jti = Suc (jti_count st), ttype = Refresh\<rparr>)]),
        st\<lparr>users := users st @
                  [\<lparr>u_id = new_oid (oid_count st), username = strip un,
                    email = lower (strip em), password = h,
                    u_role = r, created_at = now req, updated_at = now req\<rparr>],
            oid_count := Suc (oid_count st),
            jti_count := Suc (Suc (jti_count st))\<rparr>)
     \<and> u_role (last (users (snd (dispatch B Signup req st)))) = r
     \<and> (\<forall>v. map_of kvs ''role'' = Some v \<longrightarrow> r = v)
     \<and> (map_of kvs ''role'' = None \<longrightarrow> r = VStr ''user'')
     \<and> (\<forall>s. bson_check (VStr s) = None)
     \<and> (\<forall>req' st0 b st'. dispatch B Signup req' st0 = (Response 201 b, st') \<longrightarrow>
           (\<exists>kvs' u. json req' = VObj kvs' \<and> users st' = users st0 @ [u]
              \<and> u_role u = (case map_of kvs' ''role'' of
                                None \<Rightarrow> VStr ''user'' | Some v \<Rightarrow> v)))"
proof -
  have eq: "dispatch B Signup req st = signup_body B req st"
    by (simp add: signup_def flask_call_def0)
  have enc: "bson_check (case map_of kvs ''role'' of None \<Rightarrow> VStr ''user'' | Some v \<Rightarrow> v) = None"
    using assms(13) by (simp only: assms(12))
  note s = signup_success [OF assms(1-11) enc assms(14), folded assms(12)]
  have a: "u_role (last (users (snd (dispatch B Signup req st)))) = r"
    unfolding eq s by simp
  have b: "\<forall>v. map_of kvs ''role'' = Some v \<longrightarrow> r = v"
    by (simp add: assms(12))
  have c: "map_of kvs ''role'' = None \<longrightarrow> r = VStr ''user''"
    by (simp add: assms(12))
  have e: "\<forall>s. bson_check (VStr s) = None"
    by simp
  have d: "\<forall>req' st0 b st'. dispatch B Signup req' st0 = (Response 201 b, st') \<longrightarrow>
           (\<exists>kvs' u. json req' = VObj kvs' \<and> users st' = users st0 @ [u]
              \<and> u_role u = (case map_of kvs' ''role'' of
                                None \<Rightarrow> VStr ''user'' | Some v \<Rightarrow> v))"
  proof (intro allI impI)
    fix req' st0 b st'
    assume "dispatch B Signup req' st0 = (Response 201 b, st')"
    then have "signup_body B req' st0 = (Response 201 b, st')"
      by (simp add: signup_def flask_call_def0)
    then show "\<exists>kvs' u. json req' = VObj kvs' \<and> users st' = users st0 @ [u]
              \<and> u_role u = (case map_of kvs' ''role'' of
                                None \<Rightarrow> VStr ''user'' | Some v \<Rightarrow> v)"
      by (rule signup_created)
  qed
  show ?thesis
    by (intro conjI a b c e d) (simp only: eq s)
qed

text \<open>
  Without a token Mallory signs up with \<^verbatim>\<open>"role": "admin"\<close>: the stored role is
  \<^verbatim>\<open>'admin'\<close>, and the admin-only user listing accepts the access token she was issued.
\<close>

theorem signup_stores_supplied_role_witness:
  "db state0 = Database True
   \<and> hashpw bcrypt0 ''Valid1Pass!'' (salt (anonymous mallory_signup)) = Inr ''salt$Valid1Pass!''
   \<and> bson_check (VStr ''admin'') = None
   \<and> write_ok (anonymous mallory_signup)
   \<and> json (anonymous mallory_signup) =
       VObj [(''username'', VStr ''mallory''), (''email'', VStr ''mallory@example.org''),
             (''password'', VStr ''Valid1Pass!''), (''role'', VStr ''admin'')]
   \<and> jwt (anonymous mallory_signup) = JwtError 401 ''Missing Authorization Header''
   \<and> u_role (last (users (snd (dispatch bcrypt0 Signup (anonymous mallory_signup) state0)))) =
       VStr ''admin''
   \<and> map_of (case body (fst (dispatch bcrypt0 Signup (anonymous mallory_signup) state0)) of
               VObj kvs \<Rightarrow> kvs | _ \<Rightarrow> []) ''access_token'' =
       Some (encode_token mallory_access)
   \<and> status (fst (dispatch bcrypt0 AdminUsers (bearer mallory_access VNull)
                   (snd (dispatch bcrypt0 Signup (anonymous mallory_signup) state0)))) = 200"
proof -
  let ?kvs = "[(''username'', VStr ''mallory''), (''email'', VStr ''mallory@example.org''),
               (''password'', VStr ''Valid1Pass!''), (''role'', VStr ''admin'')]"
  have h1: "db state0 = Database True"
    by (simp add: state0_def)
  have h2: "json (anonymous mallory_signup) = VObj ?kvs"
    by (simp add: anonymous_def mallory_signup_def)
  have h3: "map_of ?kvs ''username'' = Some (VStr ''mallory'')"
    by simp
  have h4: "map_of ?kvs ''email'' = Some (VStr ''mallory@example.org'')"
    by simp
  have h5: "map_of ?kvs ''password'' = Some (VStr ''Valid1Pass!'')"
    by simp
  have h6: "3 \<le> length (strip ''mallory'')"
    by code_simp
  have h7: "5 \<le> length (lower (strip ''mallory@example.org''))"
    by code_simp
  have h8: "CHR ''@'' \<in> set (lower (strip ''mallory@example.org''))"
    by code_simp
  have h9: "validate_password (VStr ''Valid1Pass!'') = Inr (True, ''Password is valid'')"
    by (rule validate_password_examples)
  have h10: "find (\<lambda>u. username u = strip ''mallory''
                        \<or> email u = lower (strip ''mallory@example.org'')) (users state0) = None"
    by (simp add: state0_def)
  have h11: "VStr ''admin'' = (case map_of ?kvs ''role'' of None \<Rightarrow> VStr ''user'' | Some v \<Rightarrow> v)"
    by simp
  have h12: "hashpw bcrypt0 ''Valid1Pass!'' (salt (anonymous mallory_signup)) =
               Inr ''salt$Valid1Pass!''"
    by code_simp
  have h13: "bson_check (VStr ''admin'') = None"
    by simp
  have h14: "write_ok (anonymous mallory_signup)"
    by (simp add: anonymous_def)
  have anon: "jwt (anonymous mallory_signup) = JwtError 401 ''Missing Authorization Header''"
    by (simp add: jwt_def anonymous_def)
  note t = signup_stores_supplied_role [OF h1 h2 h3 h4 h5 h6 h7 h8 h9 h10 h12 h11 h13 h14]
  have a: "u_role (last (users (snd (dispatch bcrypt0 Signup (anonymous mallory_signup)
                                        state0)))) = VStr ''admin''"
    by (rule t [THEN conjunct2, THEN conjunct1])
  have b: "map_of (case body (fst (dispatch bcrypt0 Signup (anonymous mallory_signup) state0)) of
               VObj kvs \<Rightarrow> kvs | _ \<Rightarrow> []) ''access_token'' =
       Some (encode_token mallory_access)"
    by code_simp
  have c: "status (fst (dispatch bcrypt0 AdminUsers (bearer mallory_access VNull)
                   (snd (dispatch bcrypt0 Signup (anonymous mallory_signup) state0)))) = 200"
    by code_simp
  show ?thesis
    by (intro conjI h1 h12 h13 h14 h2 anon a b c)
qed

text \<open>
  Remarks on C2: where a signup that passes the validations is not answered 201. On a
  database handle without a truth value (PyMongo 4 and later) \<^verbatim>\<open>if not db\<close> raises; a
  password over 72 bytes makes bcrypt 5 raise; a role that is an integer outside 64 bits
  is refused by the BSON encoder. Each is answered 500 and no user is stored.
\<close>

lemma signup_refused:
  "dispatch bcrypt0 Signup (anonymous mallory_signup) handle4_state =
     (Response 500 (error_json ''Registration failed: NotImplementedError''), handle4_state)
   \<and> validate_password (VStr (''Valid1Pass!'' @ long_password)) =
       Inr (True, ''Password is valid'')
   \<and> dispatch bcrypt0 Signup
        (anonymous (VObj [(''username'', VStr ''mallory''),
                          (''email'', VStr ''mallory@example.org''),
                          (''password'', VStr (''Valid1Pass!'' @ long_password))])) state0 =
       (Response 500 (error_json ''Registration failed: ValueError''), state0)
   \<and> dispatch bcrypt0 Signup
        (anonymous (VObj [(''username'', VStr ''mallory''),
                          (''email'', VStr ''mallory@example.org''),
                          (''password'', VStr ''Valid1Pass!''),
                          (''role'', VNum (2 ^ 64))])) state0 =
       (Response 500 (error_json ''Registration failed: OverflowError''), state0)"
  by code_simp

text \<open>
  C1. A refresh request that presents a refresh token whose \<^verbatim>\<open>jti\<close> has been revoked is
  rejected, then and after any further requests: the answer is the 422 of the token check,
  the state is unchanged, and no access token is issued. The check of \<^verbatim>\<open>@jwt_required()\<close>
  answers every refresh token so, revoked or not; a request whose token does not decode is
  answered by the extension with the state unchanged; and the route issues a token only
  to a request that presents a decoded access token.
\<close>

theorem refresh_rejects_revoked_refresh_token:
  "(presented req = JwtOk c \<and> ttype c = Refresh \<and> is_token_revoked c st \<longrightarrow>
      dispatch B RefreshRoute req st =
        (Response 422 (VObj [(''msg'', VStr ''Only non-refresh tokens are allowed'')]), st))
   \<and> (presented req = JwtOk c \<and> ttype c = Refresh \<longrightarrow>
        is_token_revoked c (serve B reqs (revoke_token (jti c) st))
        \<and> dispatch B RefreshRoute req (serve B reqs (revoke_token (jti c) st)) =
            (Response 422 (VObj [(''msg'', VStr ''Only non-refresh tokens are allowed'')]),
             serve B reqs (revoke_token (jti c) st)))
   \<and> (presented req = JwtOk c \<and> ttype c = Refresh \<longrightarrow>
        dispatch B RefreshRoute req st =
          (Response 422 (VObj [(''msg'', VStr ''Only non-refresh tokens are allowed'')]), st))
   \<and> (presented req = JwtError s m \<longrightarrow>
        dispatch B RefreshRoute req st = (Response s (VObj [(''msg'', VStr m)]), st))
   \<and> (jti_count (snd (dispatch B RefreshRoute req st)) \<noteq> jti_count st \<longrightarrow>
        (\<exists>a. presented req = JwtOk a \<and> ttype a = Access))"
proof -
  have r: "dispatch B RefreshRoute req st' =
             (Response 422 (VObj [(''msg'', VStr ''Only non-refresh tokens are allowed'')]), st')"
    if "presented req = JwtOk c" and "ttype c = Refresh" for st'
    by (rule refresh_route_rejects [OF refresh_token_refused [OF that]])
  have k: "is_token_revoked c (serve B reqs (revoke_token (jti c) st))"
    unfolding is_token_revoked_def
    by (rule serve_keeps_revoked) (simp add: revoke_token_def)
  have e: "dispatch B RefreshRoute req st = (Response s (VObj [(''msg'', VStr m)]), st)"
    if "presented req = JwtError s m"
    by (rule refresh_route_rejects) (simp add: jwt_def that)
  show ?thesis
    using r k e refresh_issues_to_access_only [of B req st] by blast
qed

text \<open>
  The refresh token that Alice was issued at signup, revoked, three requests later; a
  request without a token; and the only kind of request that is issued a token.
\<close>

theorem refresh_rejects_revoked_refresh_token_witness:
  "presented (bearer alice_refresh VNull) = JwtOk alice_refresh
   \<and> ttype alice_refresh = Refresh
   \<and> is_token_revoked alice_refresh (revoke_token (jti alice_refresh) private_state)
   \<and> dispatch bcrypt0 RefreshRoute (bearer alice_refresh VNull)
        (revoke_token (jti alice_refresh) private_state) =
       (Response 422 (VObj [(''msg'', VStr ''Only non-refresh tokens are allowed'')]),
        revoke_token (jti alice_refresh) private_state)
   \<and> is_token_revoked alice_refresh
        (serve bcrypt0 later_requests (revoke_token (jti alice_refresh) private_state))
   \<and> dispatch bcrypt0 RefreshRoute (bearer alice_refresh VNull)
        (serve bcrypt0 later_requests (revoke_token (jti alice_refresh) private_state)) =
       (Response 422 (VObj [(''msg'', VStr ''Only non-refresh tokens are allowed'')]),
        serve bcrypt0 later_requests (revoke_token (jti alice_refresh) private_state))
   \<and> presented (anonymous VNull) = JwtError 401 ''Missing Authorization Header''
   \<and> dispatch bcrypt0 RefreshRoute (anonymous VNull) private_state =
       (Response 401 (VObj [(''msg'', VStr ''Missing Authorization Header'')]), private_state)
   \<and> jti_count (snd (dispatch bcrypt0 RefreshRoute (bearer alice_access VNull) private_state))
       \<noteq> jti_count private_state
   \<and> ttype alice_access = Access"
proof -
  have h1: "presented (bearer alice_refresh VNull) = JwtOk alice_refresh"
    by (simp add: bearer_def)
  have h2: "ttype alice_refresh = Refresh"
    by (simp add: alice_refresh_def)
  have h3: "is_token_revoked alice_refresh (revoke_token (jti alice_refresh) private_state)"
    by (simp add: is_token_revoked_def revoke_token_def)
  have h4: "presented (anonymous VNull) = JwtError 401 ''Missing Authorization Header''"
    by (simp add: anonymous_def)
  have h5: "jti_count (snd (dispatch bcrypt0 RefreshRoute (bearer alice_access VNull)
                               private_state)) \<noteq> jti_count private_state"
    by code_simp
  have h6: "ttype alice_access = Access"
    by (simp add: alice_access_def)
  note t1 = refresh_rejects_revoked_refresh_token
    [of "bearer alice_refresh VNull" alice_refresh
        "revoke_token (jti alice_refresh) private_state" bcrypt0]
  note t2 = refresh_rejects_revoked_refresh_token
    [of "bearer alice_refresh VNull" alice_refresh private_state bcrypt0 later_requests]
  note t3 = refresh_rejects_revoked_refresh_token
    [of "anonymous VNull" _ private_state bcrypt0 _ 401 "''Missing Authorization Header''"]
  have a: "dispatch bcrypt0 RefreshRoute (bearer alice_refresh VNull)
        (revoke_token (jti alice_refresh) private_state) =
       (Response 422 (VObj [(''msg'', VStr ''Only non-refresh tokens are allowed'')]),
        revoke_token (jti alice_refresh) private_state)"
    by (rule t1 [THEN conjunct1, THEN mp]) (intro conjI h1 h2 h3)
  have b: "is_token_revoked alice_refresh
        (serve bcrypt0 later_requests (revoke_token (jti alice_refresh) private_state))
     \<and> dispatch bcrypt0 RefreshRoute (bearer alice_refresh VNull)
        (serve bcrypt0 later_requests (revoke_token (jti alice_refresh) private_state)) =
       (Response 422 (VObj [(''msg'', VStr ''Only non-refresh tokens are allowed'')]),
        serve bcrypt0 later_requests (revoke_token (jti alice_refresh) private_state))"
    by (rule t2 [THEN conjunct2, THEN conjunct1, THEN mp]) (intro conjI h1 h2)
  have c: "dispatch bcrypt0 RefreshRoute (anonymous VNull) private_state =
       (Response 401 (VObj [(''msg'', VStr ''Missing Authorization Header'')]), private_state)"
    by (rule t3 [THEN conjunct2, THEN conjunct2, THEN conjunct2, THEN conjunct1, THEN mp, OF h4])
  show ?thesis
    by (intro conjI h1 h2 h3 a b [THEN conjunct1] b [THEN conjunct2] h4 c h5 h6)
qed

text \<open>
  Two remarks on C1. The registry plays no part in the answer of this route:
  \<^verbatim>\<open>refresh_token\<close> never reads \<^verbatim>\<open>token_blacklist\<close>, so its answer is the same whatever
  the registry holds. And what the route accepts is an access token, also one whose
  \<^verbatim>\<open>jti\<close> is revoked: Alice signs up and logs out with her access token; a refresh
  request with that token is then answered 200 with a new access token, while the profile
  route answers the same token 401.
\<close>

lemma refresh_blind:
  "fst (dispatch B RefreshRoute req (st\<lparr>token_blacklist := X\<rparr>)) =
     fst (dispatch B RefreshRoute req st)"
  by (simp add: flask_call_def refresh_token_def jwt_required_def def0_call
        refresh_token_body_def caught_def reply_def fail_def create_access_token_def
        then_do_def not_db_def
        split: jwt_check.split sum.split option.split db_handle.split)

lemma logout_reaches: "serve bcrypt0 logout_requests state0 = logged_out_state"
  by code_simp

lemma refresh_accepts_revoked_access_token:
  "is_token_revoked alice_access logged_out_state
   \<and> fst (dispatch bcrypt0 RefreshRoute (bearer alice_access VNull) logged_out_state) =
       Response 200
         (VObj [(''access_token'',
                   encode_token \<lparr>sub = alice_id, role = VStr ''user'', jti = 2,
                                 ttype = Access\<rparr>),
                (''message'', VStr ''Token refreshed successfully'')])
   \<and> fst (dispatch bcrypt0 Profile (bearer alice_access VNull) logged_out_state) =
       Response 401 (error_json ''Token has been revoked'')"
  by code_simp
section \<open>What the bodies of the roadmap handlers compute\<close>

text \<open>
  The bodies of \<^verbatim>\<open>get_roadmap\<close>, \<^verbatim>\<open>update_roadmap\<close> and \<^verbatim>\<open>delete_roadmap\<close>, applied
  to the arguments their parameters are named after, for a roadmap whose \<^verbatim>\<open>created_by\<close>
  is an ObjectId: a read is answered 200 when the roadmap is public, the caller is its
  creator or the role is \<^verbatim>\<open>'admin'\<close>, and 404 otherwise; a write by anybody but the
  creator or an admin is answered 403 and changes nothing.
\<close>

lemma map_of_dict_set: "map_of (dict_set d k v) k' = (if k' = k then Some v else map_of d k')"
  by (induction d) auto

lemma find_filter_conv:
  "find R xs = (case filter R xs of [] \<Rightarrow> None | y # ys \<Rightarrow> Some y)"
  by (induction xs) simp_all

lemma find_single:
  "filter P xs = [d] \<Longrightarrow> find P xs = Some d"
  by (simp add: find_filter_conv)

lemma find_single_and:
  "filter P xs = [d] \<Longrightarrow> find (\<lambda>x. P x \<and> Q x) xs = (if Q d then Some d else None)"
proof -
  assume one: "filter P xs = [d]"
  have "filter (\<lambda>x. P x \<and> Q x) xs = filter Q (filter P xs)"
    by (simp add: conj_commute)
  then have "filter (\<lambda>x. P x \<and> Q x) xs = (if Q d then [d] else [])"
    by (simp add: one)
  then show ?thesis
    by (simp add: find_filter_conv)
qed

lemma get_roadmap_body_policy:
  assumes db: "db st = Database True" and tok: "jwt req = JwtOk c"
    and rid: "ObjectId roadmap_id = Inr rid" and uid: "ObjectId current_user_id = Inr uid"
    and one: "filter (has_id rid) (roadmaps st) = [d]"
    and own: "map_of d ''created_by'' = Some (VOid owner)"
    and pub: "map_of d ''is_public'' = Some (VBool public)"
  shows "get_roadmap_body roadmap_id current_user_id req st =
           (if public \<or> owner = uid \<or> role c = VStr ''admin''
            then Response 200
                   (VObj [(''roadmap'',
                           VObj (dict_set (dict_set d ''_id'' (VStr rid))
                                   ''created_by'' (VStr owner)))])
            else Response 404 (error_json ''Roadmap not found or access denied''), st)"
proof -
  have f1: "find (has_id rid) (roadmaps st) = Some d"
    by (rule find_single [OF one])
  have f2: "find (\<lambda>d. has_id rid d \<and> (mongo_eq d ''is_public'' (VBool True)
                                        \<or> mongo_eq d ''created_by'' (VOid uid))) (roadmaps st) =
            (if public \<or> owner = uid then Some d else None)"
    using find_single_and [OF one,
      of "\<lambda>d. mongo_eq d ''is_public'' (VBool True) \<or> mongo_eq d ''created_by'' (VOid uid)"]
    by (simp add: mongo_eq_def own pub eq_commute)
  have "d \<in> set (filter (has_id rid) (roadmaps st))"
    by (simp only: one list.set_intros)
  then have i: "map_of d ''_id'' = Some (VOid rid)"
    by (simp add: has_id_def)
  show ?thesis
    unfolding get_roadmap_body_def
    using db
    by (simp add: tok rid uid f1 f2 get_jwt_def caught_def not_db_def reply_def fail_def str_field_def
          i own map_of_dict_set)
qed

lemma update_roadmap_body_denied:
  assumes db: "db st = Database True" and data: "truthy (json req)" and tok: "jwt req = JwtOk c"
    and rid: "ObjectId roadmap_id = Inr rid"
    and fd: "find_roadmap rid st = Some d"
    and own: "map_of d ''created_by'' = Some (VOid owner)"
    and other: "owner \<noteq> current_user_id" and user: "role c \<noteq> VStr ''admin''"
  shows "update_roadmap_body roadmap_id current_user_id req st =
           (Response 403 (error_json ''Access denied. Only owner or admin can update roadmap''),
            st)"
  unfolding update_roadmap_body_def
  using db data other user
  by (simp add: tok rid fd own get_jwt_def caught_def not_db_def fail_def not_owner_or_admin_def)

lemma delete_roadmap_body_denied:
  assumes db: "db st = Database True" and tok: "jwt req = JwtOk c"
    and rid: "ObjectId roadmap_id = Inr rid"
    and fd: "find_roadmap rid st = Some d"
    and own: "map_of d ''created_by'' = Some (VOid owner)"
    and other: "owner \<noteq> current_user_id" and user: "role c \<noteq> VStr ''admin''"
  shows "delete_roadmap_body roadmap_id current_user_id req st =
           (Response 403 (error_json ''Access denied. Only owner or admin can delete roadmap''),
            st)"
  unfolding delete_roadmap_body_def
  using db other user
  by (simp add: tok rid fd own get_jwt_def caught_def not_db_def fail_def not_owner_or_admin_def)

lemma delete_roadmap_body_allowed:
  assumes db: "db st = Database True" and tok: "jwt req = JwtOk c"
    and rid: "ObjectId roadmap_id = Inr rid"
    and fd: "find_roadmap rid st = Some d"
    and own: "map_of d ''created_by'' = Some (VOid owner)"
    and ok: "owner = current_user_id \<or> role c = VStr ''admin''"
  shows "delete_roadmap_body roadmap_id current_user_id req st =
           (Response 200 (VObj [(''message'', VStr ''Roadmap deleted successfully'')]),
            st\<lparr>roadmaps := delete_first (has_id rid) (roadmaps st)\<rparr>)"
proof -
  have allowed: "\<not> (owner \<noteq> current_user_id \<and> role c \<noteq> VStr ''admin'')"
    using ok by blast
  show ?thesis
    unfolding delete_roadmap_body_def
    using db ok
    by (cases "owner = current_user_id")
       (simp_all add: tok rid fd own get_jwt_def caught_def not_db_def reply_def not_owner_or_admin_def
          delete_one_def)
qed

lemma update_roadmap_body_allowed:
  assumes db: "db st = Database True" and data: "json req = VObj upd" "upd \<noteq> []" and tok: "jwt req = JwtOk c"
    and rid: "ObjectId roadmap_id = Inr rid"
    and fd: "find_roadmap rid st = Some d"
    and own: "map_of d ''created_by'' = Some (VOid owner)"
    and ok: "owner = current_user_id \<or> role c = VStr ''admin''"
    and noid: "map_of upd ''_id'' = None"
    and enc: "bson_check (VObj (dict_set upd ''updated_at'' (VTime (now req)))) = None"
    and wr: "write_ok req"
  shows "update_roadmap_body roadmap_id current_user_id req st =
           (Response 200 (VObj [(''message'', VStr ''Roadmap updated successfully'')]),
            st\<lparr>roadmaps :=
                  update_first (has_id rid)
                    (\<lambda>d. set_fields d (dict_set upd ''updated_at'' (VTime (now req))))
                    (roadmaps st)\<rparr>)"
proof -
  have allowed: "\<not> (owner \<noteq> current_user_id \<and> role c \<noteq> VStr ''admin'')"
    using ok by blast
  show ?thesis
    unfolding update_roadmap_body_def
    using db ok data(2) wr enc
    by (cases "owner = current_user_id")
       (simp_all add: data(1) tok rid fd own get_jwt_def caught_def not_db_def reply_def
          not_owner_or_admin_def update_one_def sent_def map_of_dict_set noid)
qed


text \<open>
  In \<^verbatim>\<open>toggle_node_completion\<close> the second loop runs after the write; it finds the
  node that the first loop toggled and does not raise.
\<close>

lemma toggle_then_found:
  "toggle_first node_id nodes = Inr (Some nodes') \<Longrightarrow> \<exists>node. find_node node_id nodes' = Inr node"
proof (induction nodes arbitrary: nodes')
  case Nil
  then show ?case by simp
next
  case (Cons n ns)
  show ?case
  proof (cases "py_getitem n ''id''")
    case (Inl e)
    with Cons.prems show ?thesis by simp
  next
    case (Inr i)
    show ?thesis
    proof (cases "py_str i = node_id")
      case True
      with Inr obtain kvs where n: "n = VObj kvs"
        by (cases n) simp_all
      with Inr have idv: "map_of kvs ''id'' = Some i"
        by (simp split: option.splits)
      from Cons.prems Inr True n
      have "nodes' = VObj (dict_set kvs ''completed''
                (VBool (\<not> truthy (case map_of kvs ''completed'' of
                                       None \<Rightarrow> VBool False | Some v \<Rightarrow> v)))) # ns"
        by (auto split: option.splits)
      with idv True show ?thesis
        by (simp add: map_of_dict_set)
    next
      case False
      with Cons.prems Inr obtain rest' where
        r: "toggle_first node_id ns = Inr (Some rest')" and n': "nodes' = n # rest'"
        by (auto split: sum.splits option.splits)
      from Cons.IH [OF r] obtain node where "find_node node_id rest' = Inr node"
        by blast
      with n' Inr False show ?thesis by simp
    qed
  qed
qed
section \<open>Where the code departs from the specification\<close>

lemma setup_reaches: "serve bcrypt0 setup_requests state0 = private_state"
  by code_simp

text \<open>
  C3 (the code does not do what the claim says). The claim: a refresh request with a valid
  refresh token is answered with a new access token that carries the role of the stored
  user, and with a not-found error when the user is no longer stored. The code:
  \<^verbatim>\<open>refresh_token\<close> is under \<^verbatim>\<open>@jwt_required()\<close> without \<^verbatim>\<open>refresh=True\<close>, so the
  token check answers every refresh token 422 and the body never runs. Alice signs up and
  is issued \<open>alice_refresh\<close>, with the role \<^verbatim>\<open>'user'\<close>; she is promoted; her refresh
  request is answered 422 and no token is issued. The refresh token of a user who is not
  stored is answered 422 as well, not 404. The body does read the stored role, for the
  access token that the route accepts.
\<close>

theorem refresh_route_refuses_refresh_tokens:
  "fst (dispatch bcrypt0 Signup (anonymous alice_signup) state0) =
     Response 201
       (VObj [(''message'', VStr ''User created successfully''),
              (''user'', VObj [(''id'', VStr alice_id), (''username'', VStr ''alice''),
                               (''email'', VStr ''alice@example.org''),
                               (''role'', VStr ''user'')]),
              (''access_token'', encode_token alice_access),
              (''refresh_token'', encode_token alice_refresh)])
   \<and> ttype alice_refresh = Refresh
   \<and> role alice_refresh = VStr ''user''
   \<and> find (\<lambda>u. u_id u = alice_id) (users promoted_state) =
       Some \<lparr>u_id = ''000000000000000000000000'', username = ''alice'',
             email = ''alice@example.org'', password = ''salt$Valid1Pass!'',
             u_role = VStr ''admin'', created_at = 0, updated_at = 0\<rparr>
   \<and> dispatch bcrypt0 RefreshRoute (bearer alice_refresh VNull) promoted_state =
       (Response 422 (VObj [(''msg'', VStr ''Only non-refresh tokens are allowed'')]),
        promoted_state)
   \<and> ttype stranger_refresh = Refresh
   \<and> find (\<lambda>u. u_id u = sub stranger_refresh) (users promoted_state) = None
   \<and> dispatch bcrypt0 RefreshRoute (bearer stranger_refresh VNull) promoted_state =
       (Response 422 (VObj [(''msg'', VStr ''Only non-refresh tokens are allowed'')]),
        promoted_state)
   \<and> fst (dispatch bcrypt0 RefreshRoute (bearer alice_access VNull) promoted_state) =
       Response 200
         (VObj [(''access_token'',
                   encode_token \<lparr>sub = alice_id, role = VStr ''admin'', jti = 4,
                                 ttype = Access\<rparr>),
                (''message'', VStr ''Token refreshed successfully'')])
   \<and> dispatch bcrypt0 RefreshRoute (bearer stranger_access VNull) promoted_state =
       (Response 404 (error_json ''User not found''), promoted_state)"
  by code_simp

text \<open>
  C8 (the code does not do what the claim says). The claim: a login with an email that is
  not stored and a login with a stored email and a password that does not match are
  answered alike, 401 with one message. The code: for an email that is not stored the
  answer is 401 before the password is looked at; for a stored email
  \<^verbatim>\<open>check_password\<close> runs, and when it raises the answer is 500. It raises on a
  password that is not a string (\<^verbatim>\<open>password.encode\<close>), and bcrypt raises on a password
  over 72 bytes (from bcrypt 5 on). Alice is stored, Carol is not: the same password gets
  Alice's email 500 and Carol's 401. With a string password within the limit both are
  answered 401 with the same message.
\<close>

theorem login_reveals_stored_email:
  "find (\<lambda>u. email u = lower (strip ''alice@example.org'')) (users private_state) =
     Some \<lparr>u_id = ''000000000000000000000000'', username = ''alice'',
           email = ''alice@example.org'', password = ''salt$Valid1Pass!'',
           u_role = VStr ''user'', created_at = 0, updated_at = 0\<rparr>
   \<and> find (\<lambda>u. email u = lower (strip ''carol@example.org'')) (users private_state) = None
   \<and> dispatch bcrypt0 Login (anonymous (login_json ''alice@example.org'' (VNum 12345)))
        private_state =
       (Response 500 (error_json ''Login failed: AttributeError''), private_state)
   \<and> dispatch bcrypt0 Login (anonymous (login_json ''carol@example.org'' (VNum 12345)))
        private_state =
       (Response 401 (error_json ''Invalid email or password''), private_state)
   \<and> utf8_len long_password = 73
   \<and> dispatch bcrypt0 Login (anonymous (login_json ''alice@example.org'' (VStr long_password)))
        private_state =
       (Response 500 (error_json ''Login failed: ValueError''), private_state)
   \<and> dispatch bcrypt0 Login (anonymous (login_json ''carol@example.org'' (VStr long_password)))
        private_state =
       (Response 401 (error_json ''Invalid email or password''), private_state)
   \<and> dispatch bcrypt0 Login (anonymous (login_json ''alice@example.org'' (VStr ''Wrong1Pass!'')))
        private_state =
       (Response 401 (error_json ''Invalid email or password''), private_state)
   \<and> dispatch bcrypt0 Login (anonymous (login_json ''carol@example.org'' (VStr ''Wrong1Pass!'')))
        private_state =
       (Response 401 (error_json ''Invalid email or password''), private_state)"
  by code_simp

text \<open>
  C5 (the code does not do what the claim says). The claim: a GET of a private roadmap is
  answered 200 for its creator and for an admin and 404 for anybody else. The code:
  \<^verbatim>\<open>token_required\<close> passes the identity as the first positional argument, the first
  parameter of \<^verbatim>\<open>get_roadmap\<close> is \<^verbatim>\<open>roadmap_id\<close>, and Flask passes \<^verbatim>\<open>roadmap_id\<close> by
  keyword; the call raises a TypeError before the body runs and every such request with
  an accepted, unrevoked token is answered 500. Here for Alice's private roadmap: Alice,
  an admin and Bob all get 500. The body alone, applied to the arguments its parameters
  are named after, would answer Alice 200 and Bob 404.
\<close>

theorem get_roadmap_route_raises:
  "find_roadmap roadmap_id private_state =
     Some [(''_id'', VOid roadmap_id), (''title'', VStr ''Logic''),
           (''description'', VStr ''First steps''), (''category'', VStr ''math''),
           (''difficulty_level'', VStr ''easy''),
           (''nodes'', VArr [VObj [(''id'', VNum 1), (''title'', VStr ''Sets''),
                                   (''description'', VStr ''Naive sets''),
                                   (''position_x'', VNum 0), (''position_y'', VNum 0),
                                   (''completed'', VBool False)]]),
           (''created_by'', VOid alice_id), (''is_public'', VBool False),
           (''tags'', VArr []), (''created_at'', VTime 0), (''updated_at'', VTime 0)]
   \<and> dispatch bcrypt0 (GetRoadmap roadmap_id) (bearer alice_access VNull) private_state =
       (internal_error, private_state)
   \<and> dispatch bcrypt0 (GetRoadmap roadmap_id) (bearer alice_admin_access VNull) private_state =
       (internal_error, private_state)
   \<and> dispatch bcrypt0 (GetRoadmap roadmap_id) (bearer bob_access VNull) private_state =
       (internal_error, private_state)
   \<and> status internal_error = 500
   \<and> status (fst (get_roadmap_body roadmap_id alice_id (bearer alice_access VNull)
                    private_state)) = 200
   \<and> status (fst (get_roadmap_body roadmap_id bob_id (bearer bob_access VNull)
                    private_state)) = 404"
  by code_simp

text \<open>
  C6 (the code does not do what the claim says). The claim: a PUT or DELETE on a roadmap
  by somebody who is neither its creator nor an admin is answered 403, and the creator
  succeeds. The code: for the reason given at C5 the call of \<^verbatim>\<open>update_roadmap\<close> and of
  \<^verbatim>\<open>delete_roadmap\<close> raises a TypeError and the answer is 500, for Bob and for Alice,
  the creator; the roadmap is unchanged in every case. The bodies alone would answer Bob
  403.
\<close>

theorem update_delete_routes_raise:
  "dispatch bcrypt0 (UpdateRoadmap roadmap_id)
       (bearer bob_access (VObj [(''title'', VStr ''Mine'')])) private_state =
     (internal_error, private_state)
   \<and> dispatch bcrypt0 (DeleteRoadmap roadmap_id) (bearer bob_access VNull) private_state =
       (internal_error, private_state)
   \<and> dispatch bcrypt0 (UpdateRoadmap roadmap_id)
         (bearer alice_access (VObj [(''title'', VStr ''Mine'')])) private_state =
       (internal_error, private_state)
   \<and> dispatch bcrypt0 (DeleteRoadmap roadmap_id) (bearer alice_access VNull) private_state =
       (internal_error, private_state)
   \<and> status internal_error = 500
   \<and> update_roadmap_body roadmap_id bob_id
         (bearer bob_access (VObj [(''title'', VStr ''Mine'')])) private_state =
       (Response 403 (error_json ''Access denied. Only owner or admin can update roadmap''),
        private_state)
   \<and> delete_roadmap_body roadmap_id bob_id (bearer bob_access VNull) private_state =
       (Response 403 (error_json ''Access denied. Only owner or admin can delete roadmap''),
        private_state)"
  by code_simp


end
